theory Spec2Isabelle
  imports Complex_Main
begin

section \<open>Python values\<close>

text \<open>
  The values that generated code binds and that travel as answers. Three properties of a
  value are inspected by the program: whether it is \<open>None\<close>, whether it is callable and
  whether the JSON encoder accepts it. \<open>PFunc\<close> is a function or class, \<open>PData\<close> any other
  value the encoder accepts (a float, a list or a dict of such values, given by its JSON
  text), \<open>PObject\<close> any other object the encoder refuses (a numpy scalar, a data frame).
\<close>

datatype pyval =
    PNone
  | PBool bool
  | PInt int
  | PStr string
  | PData string
  | PFunc string
  | PObject string

fun callable :: "pyval \<Rightarrow> bool" where
  "callable (PFunc f) = True"
| "callable v = False"

fun json_serializable :: "pyval \<Rightarrow> bool" where
  "json_serializable (PFunc f) = False"
| "json_serializable (PObject x) = False"
| "json_serializable v = True"

text \<open>\<open>key.startswith('_')\<close>\<close>

fun startswith_underscore :: "string \<Rightarrow> bool" where
  "startswith_underscore [] = False"
| "startswith_underscore (c # cs) = (c = CHR ''_'')"

text \<open>
  An exception, carrying \<open>str(e)\<close>. \<open>Exn\<close> is an instance of \<open>Exception\<close>, the class every
  handler of the program names; \<open>BaseExn\<close> is an exception outside that class
  (\<open>SystemExit\<close>, \<open>KeyboardInterrupt\<close>, a cancellation), which no handler of the program
  catches. Where the interpreter or a library creates the exception, its text depends on
  their version and on the value at fault; the constants \<open>encoding_error\<close>,
  \<open>unhashable_error\<close> and \<open>join_error\<close> below give it in short.
\<close>

datatype exn = Exn string | BaseExn string

fun is_exception :: "exn \<Rightarrow> bool" where
  "is_exception (Exn m) = True"
| "is_exception (BaseExn m) = False"

fun str_of :: "exn \<Rightarrow> string" where
  "str_of (Exn m) = m"
| "str_of (BaseExn m) = m"

section \<open>JSON values\<close>

text \<open>
  What \<open>response.json()\<close> can yield for a key of the server's reply. A number is the
  parsed \<open>int\<close> or \<open>float\<close>, given by the rational it is equal to: Python compares and
  hashes the two types by that value (\<open>NaN\<close> and \<open>Infinity\<close>, which are not JSON, are left
  out).
\<close>

datatype json =
    JNull
  | JBool bool
  | JNum rat
  | JStr string
  | JArray "json list"
  | JObject "(string \<times> json) list"

text \<open>Truth value, as \<open>if v\<close> and \<open>while v\<close> take it.\<close>

fun truthy :: "json \<Rightarrow> bool" where
  "truthy JNull = False"
| "truthy (JBool b) = b"
| "truthy (JNum q) = (q \<noteq> 0)"
| "truthy (JStr s) = (s \<noteq> [])"
| "truthy (JArray vs) = (vs \<noteq> [])"
| "truthy (JObject kvs) = (kvs \<noteq> [])"

text \<open>A list or a dict cannot be a dict key: using one raises \<open>TypeError\<close>.\<close>

fun hashable :: "json \<Rightarrow> bool" where
  "hashable (JArray vs) = False"
| "hashable (JObject kvs) = False"
| "hashable v = True"

text \<open>
  Python's \<open>==\<close> and its dict keys identify \<open>True\<close> with 1 and \<open>False\<close> with 0. The
  program compares a value only with the current location, which is hashable whenever a
  comparison is reached, so that the identification at top level is all there is to it.
\<close>

fun key_of :: "json \<Rightarrow> json" where
  "key_of (JBool b) = JNum (if b then 1 else 0)"
| "key_of v = v"

definition py_eq :: "json \<Rightarrow> json \<Rightarrow> bool" where
  "py_eq a b = (key_of a = key_of b)"

text \<open>The strings of a list, or nothing when an item is not a string (\<open>str.join\<close> raises).\<close>

fun as_strs :: "json list \<Rightarrow> string list option" where
  "as_strs [] = Some []"
| "as_strs (JStr s # vs) = map_option ((#) s) (as_strs vs)"
| "as_strs (v # vs) = None"

section \<open>Analysis and execution context (llm/schema.py)\<close>

record resource =
  source_url :: "string option"
  download :: bool

record analysis =
  question :: string
  submission_link :: "string option"
  resources :: "resource list"
  task_type :: string

text \<open>
  \<open>downloaded_files\<close> maps a resource URL to a local path, \<open>file_metadata\<close> maps it to
  the metadata extracted from the file (kept as its printed form).
\<close>

type_synonym files = "(string \<times> string) list"
type_synonym metadata = "(string \<times> string) list"

record exec_context =
  ctx_downloaded_files :: files
  ctx_file_metadata :: metadata
  ctx_analysis :: analysis

section \<open>Execution sandbox (core/code\_executor.py)\<close>

text \<open>
  \<open>local_vars\<close> is a Python dict: the bindings in insertion order, each name once.
\<close>

type_synonym local_vars = "(string \<times> pyval) list"

record exec_result =
  success :: bool
  result :: pyval
  stdout :: string
  stderr :: string
  error :: "string option"

text \<open>
  What \<open>exec(code, safe_globals, local_vars)\<close> leaves behind: the captured output streams
  and either the exception it raised or the local bindings.
\<close>

record raw_exec =
  out_buffer :: string
  err_buffer :: string
  finished :: "exn + local_vars"

text \<open>
  \<^verbatim>\<open>
  for var_name in ["result", "answer", "output", "final_answer"]:
      if var_name in local_vars:
          result = local_vars[var_name]
          break
  \<close>
\<close>

fun named_result :: "string list \<Rightarrow> local_vars \<Rightarrow> pyval" where
  "named_result [] lv = PNone"
| "named_result (var_name # rest) lv =
     (case map_of lv var_name of
        Some v \<Rightarrow> v
      | None \<Rightarrow> named_result rest lv)"

text \<open>
  \<^verbatim>\<open>
  for key, value in reversed(list(local_vars.items())):
      if not callable(value) and not key.startswith('_'):
          result = value
          break
  \<close>
  The first argument is the already reversed item list, the second the value \<open>result\<close>
  holds when the loop starts.
\<close>

fun last_assigned :: "local_vars \<Rightarrow> pyval \<Rightarrow> pyval" where
  "last_assigned [] r = r"
| "last_assigned ((key, v) # rest) r =
     (if \<not> callable v \<and> \<not> startswith_underscore key then v else last_assigned rest r)"

definition result_names :: "string list" where
  "result_names = [''result'', ''answer'', ''output'', ''final_answer'']"

definition extract_result :: "local_vars \<Rightarrow> pyval" where
  "extract_result lv =
     (let r = named_result result_names lv
      in if r = PNone \<and> lv \<noteq> [] then last_assigned (rev lv) r else r)"

text \<open>
  \<open>_execute_sync\<close>. Its handler is \<open>except Exception\<close>: an exception of that class becomes
  an unsuccessful result whose \<open>error\<close> is the formatted trace (kept as the exception's
  text); any other exception leaves the function (\<open>Inl\<close>). The diagnostic
  \<open>print(result)\<close> of line 142 is taken to succeed.
\<close>

definition execute_sync ::
  "(string \<Rightarrow> exec_context \<Rightarrow> raw_exec) \<Rightarrow> string \<Rightarrow> exec_context \<Rightarrow> exn + exec_result" where
  "execute_sync exec_fn code ctx =
     (let r = exec_fn code ctx
      in case finished r of
           Inr lv \<Rightarrow>
             Inr \<lparr>success = True, result = extract_result lv,
                  stdout = out_buffer r, stderr = err_buffer r, error = None\<rparr>
         | Inl e \<Rightarrow>
             (if is_exception e then
                Inr \<lparr>success = False, result = PNone,
                     stdout = out_buffer r, stderr = err_buffer r, error = Some (str_of e)\<rparr>
              else Inl e))"

text \<open>
  The wait on the worker thread: the worker has finished in time (with what
  \<open>_execute_sync\<close> returned or let through), or the wait is abandoned at the timeout, or
  another exception surfaces at the \<open>await\<close> (raised by the scheduler, or by
  \<open>_execute_sync\<close> ahead of its \<open>try\<close> block).
\<close>

datatype waited = Returned | TimeoutError | Raised exn

text \<open>
  The interpreter and the scheduler are not part of the repository: \<open>py_exec\<close> is the
  effect of \<open>exec\<close> on the code, \<open>wait_for\<close> decides, from the code, the context and the
  timeout in seconds, how the wait on the worker ends.
\<close>

record sandbox =
  py_exec :: "string \<Rightarrow> exec_context \<Rightarrow> raw_exec"
  wait_for :: "string \<Rightarrow> exec_context \<Rightarrow> nat \<Rightarrow> waited"

text \<open>\<open>str(n)\<close> for a non-negative integer, and the f-string of the timeout error.\<close>

definition digit_char :: "nat \<Rightarrow> char" where
  "digit_char d = ''0123456789'' ! d"

function show_nat :: "nat \<Rightarrow> string" where
  "show_nat n = (if n < 10 then [digit_char n] else show_nat (n div 10) @ [digit_char (n mod 10)])"
  by pat_completeness auto
termination
  by (relation "measure id") auto

definition timeout_message :: "nat \<Rightarrow> string" where
  "timeout_message t = ''Code execution timeout ('' @ show_nat t @ ''s)''"

text \<open>
  \<open>execute_code\<close>. Its handlers are \<open>except asyncio.TimeoutError\<close> and
  \<open>except Exception\<close>; an exception outside \<open>Exception\<close> passes both.
\<close>

definition execute_code :: "sandbox \<Rightarrow> string \<Rightarrow> exec_context \<Rightarrow> nat \<Rightarrow> exn + exec_result" where
  "execute_code sb code ctx timeout =
     (case wait_for sb code ctx timeout of
        Returned \<Rightarrow> execute_sync (py_exec sb) code ctx
      | TimeoutError \<Rightarrow>
          Inr \<lparr>success = False, result = PNone, stdout = [], stderr = [],
               error = Some (timeout_message timeout)\<rparr>
      | Raised e \<Rightarrow>
          (if is_exception e then
             Inr \<lparr>success = False, result = PNone, stdout = [], stderr = [],
                  error = Some (str_of e)\<rparr>
           else Inl e))"

section \<open>Submission client (core/agent\_loop.py, submit\_answer)\<close>

record payload =
  p_email :: string
  p_secret :: string
  p_url :: json
  p_answer :: pyval

record http_response =
  status_code :: nat
  body :: string

text \<open>
  The three keys the orchestrator reads from the parsed response: \<open>correct\<close> (its truth
  value), \<open>reason\<close> (only logged) and \<open>url\<close>, which is whatever JSON value the server
  sent (\<open>JNull\<close> when the key is missing or null).
\<close>

record outcome =
  correct :: bool
  reason :: "string option"
  url :: json

text \<open>A parsed JSON body is a dict, or some other JSON value, which has no \<open>get\<close>.\<close>

datatype reply = Dict outcome | NotDict

text \<open>
  The HTTP library is not part of the repository: \<open>post\<close> is the round-trip of an encoded
  request, \<open>raise_for_status\<close> gives the exception raised for the status (if any),
  \<open>json_of\<close> parses the body or raises. \<open>open_client\<close> and \<open>close_client\<close> give the
  exception raised when \<open>async with httpx.AsyncClient(timeout=30)\<close> creates the client and
  when it closes it (if any): both happen outside the \<open>try\<close> block.
\<close>

record http_client =
  open_client :: "exn option"
  post :: "string \<Rightarrow> payload \<Rightarrow> exn + http_response"
  raise_for_status :: "http_response \<Rightarrow> exn option"
  json_of :: "http_response \<Rightarrow> exn + reply"
  close_client :: "exn option"

definition failure_reply :: "exn \<Rightarrow> reply" where
  "failure_reply e = Dict \<lparr>correct = False, reason = Some (str_of e), url = JNull\<rparr>"

text \<open>The handler \<open>except Exception\<close> of \<open>submit_answer\<close>.\<close>

definition normalized :: "exn \<Rightarrow> exn + reply" where
  "normalized e = (if is_exception e then Inr (failure_reply e) else Inl e)"

definition encoding_error :: exn where
  "encoding_error = Exn ''TypeError: Object is not JSON serializable''"

text \<open>
  The first component is what the call returns or lets through, the second the requests
  that \<open>client.post\<close> has encoded and handed to the transport, in order (what becomes of
  one there is up to \<open>post\<close>). \<open>client.post(url, json=payload)\<close> encodes the payload
  before anything is sent; the encoder raises on an answer it cannot encode. An exception
  raised on closing the client replaces what the block returned or raised.
\<close>

definition submit_answer ::
  "http_client \<Rightarrow> string \<Rightarrow> string \<Rightarrow> string \<Rightarrow> json \<Rightarrow> pyval
     \<Rightarrow> (exn + reply) \<times> (string \<times> payload) list" where
  "submit_answer client target email secret quiz_url answer =
     (let pl = \<lparr>p_email = email, p_secret = secret, p_url = quiz_url, p_answer = answer\<rparr>
      in case open_client client of
           Some e \<Rightarrow> (Inl e, [])
         | None \<Rightarrow>
             (let (returned, sent) =
                    (if \<not> json_serializable answer then (normalized encoding_error, [])
                     else
                       (case post client target pl of
                          Inl e \<Rightarrow> (normalized e, [(target, pl)])
                        | Inr response \<Rightarrow>
                            (case raise_for_status client response of
                               Some e \<Rightarrow> (normalized e, [(target, pl)])
                             | None \<Rightarrow>
                                 (case json_of client response of
                                    Inl e \<Rightarrow> (normalized e, [(target, pl)])
                                  | Inr r \<Rightarrow> (Inr r, [(target, pl)])))))
              in case close_client client of
                   Some e \<Rightarrow> (Inl e, sent)
                 | None \<Rightarrow> (returned, sent)))"

section \<open>The world outside the orchestrator\<close>

record extraction =
  page_text :: string
  links :: "string list"
  tables :: "string list"
  ext_question :: string

record agent_response =
  code :: "string option"
  final_answer :: pyval

record iteration_record =
  iteration :: int
  rec_code :: string
  rec_result :: exec_result

text \<open>
  Every collaborator is outside the repository's control: the clock, the browser, the two
  language models, the file server, the interpreter and the quiz server. Each is a function
  of the attempt number (the value of \<open>total_attempts\<close> when it is called), so that it
  may answer differently every time. Times are microseconds, the resolution of
  \<open>datetime\<close>. \<open>now_loop\<close> is the clock read by the \<open>while\<close> condition after that many
  passes, \<open>now_guard\<close> the clock read by safety check 3, \<open>now_iteration\<close> the clock
  read before an agent iteration. \<open>load_page\<close> and \<open>fetch\<close> are the bodies of the
  \<open>try\<close> blocks of \<open>extract_quiz_content\<close> and \<open>download_resource\<close>.
\<close>

record world =
  now_loop :: "nat \<Rightarrow> int"
  now_guard :: "nat \<Rightarrow> int"
  now_iteration :: "nat \<Rightarrow> int \<Rightarrow> int"
  load_page :: "nat \<Rightarrow> json \<Rightarrow> exn + extraction"
  call_analyzer_llm :: "nat \<Rightarrow> extraction \<Rightarrow> int \<Rightarrow> int \<Rightarrow> exn + analysis"
  fetch :: "nat \<Rightarrow> string \<Rightarrow> exn + string"
  preprocess_downloaded_files :: "nat \<Rightarrow> files \<Rightarrow> analysis \<Rightarrow> exn + metadata"
  call_agent_llm ::
    "nat \<Rightarrow> analysis \<Rightarrow> files \<Rightarrow> metadata \<Rightarrow> iteration_record list \<Rightarrow> int \<Rightarrow> exn + agent_response"
  sandbox_at :: "nat \<Rightarrow> int \<Rightarrow> sandbox"
  client_at :: "nat \<Rightarrow> http_client"

text \<open>
  \<open>extract_quiz_content\<close> (core/extractor.py) and \<open>download_resource\<close> (core/fetcher.py)
  end in \<open>except Exception: return None\<close>.
\<close>

definition extract_quiz_content :: "world \<Rightarrow> nat \<Rightarrow> json \<Rightarrow> exn + extraction option" where
  "extract_quiz_content w n u =
     (case load_page w n u of
        Inr ex \<Rightarrow> Inr (Some ex)
      | Inl e \<Rightarrow> (if is_exception e then Inr None else Inl e))"

definition download_resource :: "world \<Rightarrow> nat \<Rightarrow> string \<Rightarrow> exn + string option" where
  "download_resource w n u =
     (case fetch w n u of
        Inr file_path \<Rightarrow> Inr (Some file_path)
      | Inl e \<Rightarrow> (if is_exception e then Inr None else Inl e))"

section \<open>Session orchestrator (core/agent\_loop.py, run\_quiz\_agent)\<close>

definition MAX_TOTAL_ATTEMPTS :: nat where
  "MAX_TOTAL_ATTEMPTS = 30"

definition MAX_ATTEMPTS_PER_URL :: nat where
  "MAX_ATTEMPTS_PER_URL = 2"

text \<open>
  \<open>current_url\<close> starts as the string of the request and takes, from then on, whatever
  the server names as next location. \<open>url_attempt_counts\<close> is keyed as Python keys a dict.
\<close>

record session =
  current_url :: json
  total_attempts :: nat
  url_attempt_counts :: "json \<rightharpoonup> nat"
  visited_urls :: "json list"

text \<open>
  How one pass of the \<open>while\<close> loop ends: \<open>break\<close>, or on to the next pass, or an
  exception that leaves \<open>run_quiz_agent\<close>.
\<close>

datatype loop_exit = Break session | Continue session | Escape exn session

fun state_of :: "loop_exit \<Rightarrow> session" where
  "state_of (Break st) = st"
| "state_of (Continue st) = st"
| "state_of (Escape e st) = st"

text \<open>\<open>d.get(k, 0)\<close> and \<open>d[k] = v\<close>, for a hashable \<open>k\<close>.\<close>

definition get0 :: "(json \<rightharpoonup> nat) \<Rightarrow> json \<Rightarrow> nat" where
  "get0 d k = (case d (key_of k) of None \<Rightarrow> 0 | Some n \<Rightarrow> n)"

definition put :: "(json \<rightharpoonup> nat) \<Rightarrow> json \<Rightarrow> nat \<Rightarrow> (json \<rightharpoonup> nat)" where
  "put d k v = d(key_of k \<mapsto> v)"

definition unhashable_error :: exn where
  "unhashable_error = Exn ''TypeError: unhashable type''"

text \<open>\<open>d[k] = v\<close> on a dict of strings kept in insertion order.\<close>

fun dict_set :: "(string \<times> 'v) list \<Rightarrow> string \<Rightarrow> 'v \<Rightarrow> (string \<times> 'v) list" where
  "dict_set [] k v = [(k, v)]"
| "dict_set ((k', v') # kvs) k v =
     (if k' = k then (k, v) # kvs else (k', v') # dict_set kvs k v)"

subsection \<open>Step 3: downloads (lines 89--97)\<close>

fun download_all :: "world \<Rightarrow> nat \<Rightarrow> resource list \<Rightarrow> files \<Rightarrow> exn + files" where
  "download_all w n [] downloaded_files = Inr downloaded_files"
| "download_all w n (r # rs) downloaded_files =
     (case source_url r of
        Some u \<Rightarrow>
          (if download r \<and> u \<noteq> [] then
             (case download_resource w n u of
                Inl e \<Rightarrow> Inl e
              | Inr file_path \<Rightarrow>
                  (case file_path of
                     Some p \<Rightarrow>
                       (if p \<noteq> [] then download_all w n rs (dict_set downloaded_files u p)
                        else download_all w n rs downloaded_files)
                   | None \<Rightarrow> download_all w n rs downloaded_files))
           else download_all w n rs downloaded_files)
      | None \<Rightarrow> download_all w n rs downloaded_files)"

subsection \<open>Step 4: preprocessing (lines 100--108)\<close>

text \<open>The inner handler is \<open>except Exception\<close>, which gives the empty metadata.\<close>

definition preprocess :: "world \<Rightarrow> nat \<Rightarrow> files \<Rightarrow> analysis \<Rightarrow> exn + metadata" where
  "preprocess w n downloaded_files a =
     (if downloaded_files \<noteq> [] then
        (case preprocess_downloaded_files w n downloaded_files a of
           Inr file_metadata \<Rightarrow> Inr file_metadata
         | Inl e \<Rightarrow> (if is_exception e then Inr [] else Inl e))
      else Inr [])"

subsection \<open>Step 5: agent iterations (lines 110--166)\<close>

text \<open>
  The \<open>for\<close> loop over \<open>range(1, max_iterations + 1)\<close>, given the iteration numbers still
  to run and the history so far. It yields \<open>answer\<close> (\<open>PNone\<close> when no answer was
  found) with the final \<open>execution_history\<close>, or the exception that the collaborator
  raised or that the sandbox let through.
\<close>

fun agent_iterations ::
  "world \<Rightarrow> nat \<Rightarrow> int \<Rightarrow> analysis \<Rightarrow> files \<Rightarrow> metadata \<Rightarrow> int list \<Rightarrow> iteration_record list
     \<Rightarrow> exn + (pyval \<times> iteration_record list)" where
  "agent_iterations w n deadline a downloaded_files file_metadata [] execution_history =
     Inr (PNone, execution_history)"
| "agent_iterations w n deadline a downloaded_files file_metadata (i # rest) execution_history =
     (if now_iteration w n i \<ge> deadline then Inr (PNone, execution_history)
      else
        (case call_agent_llm w n a downloaded_files file_metadata execution_history i of
           Inl e \<Rightarrow> Inl e
         | Inr agent_resp \<Rightarrow>
             (if final_answer agent_resp \<noteq> PNone then
                Inr (final_answer agent_resp, execution_history)
              else
                (case code agent_resp of
                   Some c \<Rightarrow>
                     (if c \<noteq> [] then
                        (case execute_code (sandbox_at w n i) c
                               \<lparr>ctx_downloaded_files = downloaded_files,
                                ctx_file_metadata = file_metadata,
                                ctx_analysis = a\<rparr> 60 of
                           Inl e \<Rightarrow> Inl e
                         | Inr exec_res \<Rightarrow>
                             (let history' = execution_history @
                                    [\<lparr>iteration = i, rec_code = c, rec_result = exec_res\<rparr>]
                              in if success exec_res \<and> result exec_res \<noteq> PNone then
                                   Inr (result exec_res, history')
                                 else agent_iterations w n deadline a downloaded_files
                                        file_metadata rest history'))
                      else Inr (PNone, execution_history))
                 | None \<Rightarrow> Inr (PNone, execution_history)))))"

text \<open>
  The condition under which the iterations lead nowhere, in the words of the
  specification and along the iterations that take place: before each of them the deadline
  is not reached, the reasoning collaborator returns a (non-empty) code string and no final
  answer, and the execution of that code returns without a successful result other than
  \<open>None\<close>.
\<close>

fun fruitless ::
  "world \<Rightarrow> nat \<Rightarrow> int \<Rightarrow> analysis \<Rightarrow> files \<Rightarrow> metadata \<Rightarrow> int list \<Rightarrow> iteration_record list
     \<Rightarrow> bool" where
  "fruitless w n deadline a downloaded_files file_metadata [] execution_history = True"
| "fruitless w n deadline a downloaded_files file_metadata (i # rest) execution_history =
     (now_iteration w n i < deadline \<and>
      (case call_agent_llm w n a downloaded_files file_metadata execution_history i of
         Inl e \<Rightarrow> False
       | Inr agent_resp \<Rightarrow>
           final_answer agent_resp = PNone \<and>
           (case code agent_resp of
              None \<Rightarrow> False
            | Some c \<Rightarrow>
                c \<noteq> [] \<and>
                (case execute_code (sandbox_at w n i) c
                        \<lparr>ctx_downloaded_files = downloaded_files,
                         ctx_file_metadata = file_metadata,
                         ctx_analysis = a\<rparr> 60 of
                   Inl e \<Rightarrow> False
                 | Inr exec_res \<Rightarrow>
                     \<not> (success exec_res \<and> result exec_res \<noteq> PNone) \<and>
                     fruitless w n deadline a downloaded_files file_metadata rest
                       (execution_history @
                          [\<lparr>iteration = i, rec_code = c, rec_result = exec_res\<rparr>])))))"

definition agent_loop ::
  "world \<Rightarrow> nat \<Rightarrow> int \<Rightarrow> analysis \<Rightarrow> files \<Rightarrow> metadata \<Rightarrow> int
     \<Rightarrow> exn + (pyval \<times> iteration_record list)" where
  "agent_loop w n deadline a downloaded_files file_metadata max_iterations =
     agent_iterations w n deadline a downloaded_files file_metadata [1..max_iterations] []"

subsection \<open>Step 6: interpreting the submission response (lines 179--220)\<close>

definition handle_submission :: "outcome \<Rightarrow> session \<Rightarrow> loop_exit" where
  "handle_submission submission_response st =
     (let next_url = url submission_response in
      if correct submission_response then
        (if truthy next_url then
           (if py_eq next_url (current_url st) then Break st
            else Continue (st\<lparr>current_url := next_url\<rparr>))
         else Break st)
      else
        (let current_attempt = get0 (url_attempt_counts st) (current_url st) in
         if truthy next_url \<and> \<not> py_eq next_url (current_url st) then
           Continue (st\<lparr>current_url := next_url\<rparr>)
         else if current_attempt < MAX_ATTEMPTS_PER_URL then Continue st
         else if truthy next_url then Continue (st\<lparr>current_url := next_url\<rparr>)
         else Break st))"

subsection \<open>The body of the \<open>try\<close> block (lines 62--226)\<close>

text \<open>
  \<open>Inl e\<close>: the exception that leaves the \<open>try\<close> block. \<open>n\<close> is the attempt number,
  \<open>time_remaining\<close> the microseconds left at safety check 3.
\<close>

definition attempt ::
  "world \<Rightarrow> string \<Rightarrow> string \<Rightarrow> int \<Rightarrow> int \<Rightarrow> int \<Rightarrow> session \<Rightarrow> exn + loop_exit" where
  "attempt w email secret deadline max_iterations time_remaining st =
     (let n = total_attempts st in
      case extract_quiz_content w n (current_url st) of
        Inl e \<Rightarrow> Inl e
      | Inr None \<Rightarrow> Inr (Break st)
      | Inr (Some ex) \<Rightarrow>
          (case call_analyzer_llm w n ex time_remaining max_iterations of
             Inl e \<Rightarrow> Inl e
           | Inr a \<Rightarrow>
               (case download_all w n (resources a) [] of
                  Inl e \<Rightarrow> Inl e
                | Inr downloaded_files \<Rightarrow>
                    (case preprocess w n downloaded_files a of
                       Inl e \<Rightarrow> Inl e
                     | Inr file_metadata \<Rightarrow>
                         (case agent_loop w n deadline a downloaded_files file_metadata
                                 max_iterations of
                            Inl e \<Rightarrow> Inl e
                          | Inr (answer, execution_history) \<Rightarrow>
                              (case submission_link a of
                                 Some target \<Rightarrow>
                                   (if answer \<noteq> PNone \<and> target \<noteq> [] then
                                      (case fst (submit_answer (client_at w n) target email secret
                                                   (current_url st) answer) of
                                         Inl e \<Rightarrow> Inl e
                                       | Inr (Dict submission_response) \<Rightarrow>
                                           Inr (handle_submission submission_response st)
                                       | Inr NotDict \<Rightarrow> Inl (Exn ''AttributeError''))
                                    else Inr (Break st))
                               | None \<Rightarrow> Inr (Break st)))))))"

subsection \<open>One pass of the \<open>while\<close> loop (lines 39--232)\<close>

text \<open>
  Line 47 raises \<open>TypeError\<close>, outside the \<open>try\<close> block, when the current location is a
  list or a dict. The handler of the \<open>try\<close> block is \<open>except Exception\<close>.
\<close>

definition loop_body ::
  "world \<Rightarrow> string \<Rightarrow> string \<Rightarrow> int \<Rightarrow> int \<Rightarrow> session \<Rightarrow> loop_exit" where
  "loop_body w email secret deadline max_iterations st =
     (let st1 = st\<lparr>total_attempts := total_attempts st + 1\<rparr> in
      if total_attempts st1 > MAX_TOTAL_ATTEMPTS then Break st1
      else if \<not> hashable (current_url st1) then Escape unhashable_error st1
      else
        (let st2 = st1\<lparr>url_attempt_counts := put (url_attempt_counts st1) (current_url st1)
                     (get0 (url_attempt_counts st1) (current_url st1) + 1)\<rparr> in
         if get0 (url_attempt_counts st2) (current_url st2) > MAX_ATTEMPTS_PER_URL then Break st2
         else
           (let time_remaining = deadline - now_guard w (total_attempts st2) in
            if time_remaining < 10 * 1000000 then Break st2
            else
              (let st3 = st2\<lparr>visited_urls := visited_urls st2 @ [current_url st2]\<rparr> in
               case attempt w email secret deadline max_iterations time_remaining st3 of
                 Inr ex \<Rightarrow> ex
               | Inl e \<Rightarrow> (if is_exception e then Continue st3 else Escape e st3)))))"

subsection \<open>The \<open>while\<close> loop\<close>

text \<open>How \<open>run_quiz_agent\<close> ends: it returns, or an exception leaves it.\<close>

datatype run_result = Returns session | Raises exn session

fun final :: "run_result \<Rightarrow> session" where
  "final (Returns st) = st"
| "final (Raises e st) = st"

function run_loop ::
  "world \<Rightarrow> string \<Rightarrow> string \<Rightarrow> int \<Rightarrow> int \<Rightarrow> session \<Rightarrow> run_result" where
  "run_loop w email secret deadline max_iterations st =
     (if truthy (current_url st) \<and> now_loop w (total_attempts st) < deadline then
        (case loop_body w email secret deadline max_iterations st of
           Break st' \<Rightarrow> Returns st'
         | Continue st' \<Rightarrow> run_loop w email secret deadline max_iterations st'
         | Escape e st' \<Rightarrow> Raises e st')
      else Returns st)"
  by pat_completeness auto
termination
proof (relation "measure (\<lambda>(w, email, secret, deadline, max_iterations, st). 31 - total_attempts st)")
  show "wf (measure (\<lambda>(w, email, secret, deadline, max_iterations, st). 31 - total_attempts st))"
    by simp
next
  fix w :: world and email secret :: string and deadline max_iterations :: int
    and st st' :: session
  assume next_pass: "loop_body w email secret deadline max_iterations st = Continue st'"
  have hs: "total_attempts (state_of (handle_submission r s)) = total_attempts s" for r s
    by (simp add: handle_submission_def Let_def)
  have at: "total_attempts (state_of ex) = total_attempts s"
    if "attempt w email secret deadline max_iterations tr s = Inr ex" for tr s ex
    using that hs
    by (auto simp: attempt_def Let_def split: sum.splits option.splits if_splits reply.splits)
  from next_pass have "total_attempts st' = total_attempts st + 1 \<and> total_attempts st < 30"
    by (auto simp: loop_body_def Let_def MAX_TOTAL_ATTEMPTS_def
          split: if_splits sum.splits dest!: at)
  then show "((w, email, secret, deadline, max_iterations, st'),
              (w, email, secret, deadline, max_iterations, st))
             \<in> measure (\<lambda>(w, email, secret, deadline, max_iterations, st). 31 - total_attempts st)"
    by (simp, arith)
qed

declare run_loop.simps [simp del]

subsection \<open>The closing summary (lines 234--240) and \<open>run_quiz_agent\<close>\<close>

text \<open>
  The summary reports the total attempts, the number of distinct locations visited and
  the last five of the visited sequence, which \<open>join\<close> accepts only if they are strings.
\<close>

definition join_error :: exn where
  "join_error = Exn ''TypeError: sequence item: expected str instance''"

definition summary :: "session \<Rightarrow> exn + (nat \<times> nat \<times> string list)" where
  "summary st =
     (case as_strs (drop (length (visited_urls st) - 5) (visited_urls st)) of
        Some last_five \<Rightarrow>
          Inr (total_attempts st, length (remdups (map key_of (visited_urls st))), last_five)
      | None \<Rightarrow> Inl join_error)"

definition run_quiz_agent ::
  "world \<Rightarrow> string \<Rightarrow> string \<Rightarrow> string \<Rightarrow> int \<Rightarrow> int \<Rightarrow> run_result" where
  "run_quiz_agent w quiz_url email secret deadline max_iterations =
     (case run_loop w email secret deadline max_iterations
             \<lparr>current_url = JStr quiz_url, total_attempts = 0,
              url_attempt_counts = Map.empty, visited_urls = []\<rparr> of
        Raises e st \<Rightarrow> Raises e st
      | Returns st \<Rightarrow>
          (case summary st of
             Inr reported \<Rightarrow> Returns st
           | Inl e \<Rightarrow> Raises e st))"

text \<open>
  The invariant of the loop: every visited entry was paid for by one unit of the global
  counter and one unit of its location's counter, within both ceilings.
\<close>

definition session_inv :: "session \<Rightarrow> bool" where
  "session_inv st =
     (length (visited_urls st) \<le> min (total_attempts st) MAX_TOTAL_ATTEMPTS \<and>
      (\<forall>k. count_list (map key_of (visited_urls st)) k
             \<le> min (case url_attempt_counts st k of None \<Rightarrow> 0 | Some n \<Rightarrow> n)
                   MAX_ATTEMPTS_PER_URL))"

section \<open>Service boundary (main.py, handle\_quiz)\<close>

record quiz_request =
  req_email :: string
  req_secret :: string
  req_url :: string

record quiz_response =
  status :: string
  message :: string

text \<open>
  How the handler ends: with its response, with an \<open>HTTPException\<close> (status and detail),
  or with an exception that no handler caught.
\<close>

datatype handled = Response quiz_response | HTTPException nat string | Uncaught exn

text \<open>
  \<open>start_time\<close> is the clock at request receipt; the expected credentials come from the
  environment and may be unset. The call \<open>await run_quiz_agent(...)\<close> suspends the handler
  until the coroutine has returned or raised; the handler around it is
  \<open>except Exception\<close>.
\<close>

definition handle_quiz ::
  "world \<Rightarrow> int \<Rightarrow> string option \<Rightarrow> string option \<Rightarrow> quiz_request \<Rightarrow> handled" where
  "handle_quiz w start_time EXPECTED_SECRET EXPECTED_EMAIL request =
     (let deadline = start_time + 3 * 60 * 1000000 in
      if Some (req_secret request) \<noteq> EXPECTED_SECRET then HTTPException 403 ''Invalid secret''
      else if Some (req_email request) \<noteq> EXPECTED_EMAIL then HTTPException 403 ''Email mismatch''
      else
        (case run_quiz_agent w (req_url request) (req_email request) (req_secret request)
                deadline 2 of
           Returns st \<Rightarrow>
             Response \<lparr>status = ''success'', message = ''Quiz processing initiated''\<rparr>
         | Raises e st \<Rightarrow>
             (if is_exception e then HTTPException 500 (str_of e) else Uncaught e)))"

section \<open>Scenarios\<close>

text \<open>
  A world in which the clock stands still at 0, the page is extracted, the analysis names a
  submission target and no resources, the reasoning collaborator asks for code every time,
  the code runs and binds \<open>answer = 42\<close>, and the server answers that the answer is wrong
  and names no next location.
\<close>

definition an_analysis :: analysis where
  "an_analysis =
     \<lparr>question = ''q'', submission_link = Some ''http://quiz/submit'', resources = [],
      task_type = ''unknown''\<rparr>"

definition a_sandbox :: "exn + local_vars \<Rightarrow> sandbox" where
  "a_sandbox r =
     \<lparr>py_exec = (\<lambda>c x. \<lparr>out_buffer = [], err_buffer = [], finished = r\<rparr>),
      wait_for = (\<lambda>c x t. Returned)\<rparr>"

definition a_client :: "exn + reply \<Rightarrow> http_client" where
  "a_client r =
     \<lparr>open_client = None,
      post = (\<lambda>t p. Inr \<lparr>status_code = 200, body = []\<rparr>),
      raise_for_status = (\<lambda>resp. None),
      json_of = (\<lambda>resp. r),
      close_client = None\<rparr>"

definition stubborn_world :: world where
  "stubborn_world =
     \<lparr>now_loop = (\<lambda>n. 0),
      now_guard = (\<lambda>n. 0),
      now_iteration = (\<lambda>n i. 0),
      load_page = (\<lambda>n u. Inr \<lparr>page_text = [], links = [], tables = [], ext_question = []\<rparr>),
      call_analyzer_llm = (\<lambda>n ex t m. Inr an_analysis),
      fetch = (\<lambda>n u. Inl (Exn ''404 Not Found'')),
      preprocess_downloaded_files = (\<lambda>n f a. Inr []),
      call_agent_llm = (\<lambda>n a f m h i. Inr \<lparr>code = Some ''pass'', final_answer = PNone\<rparr>),
      sandbox_at = (\<lambda>n i. a_sandbox (Inr [(''answer'', PInt 42)])),
      client_at =
        (\<lambda>n. a_client (Inr (Dict \<lparr>correct = False, reason = Some ''wrong'', url = JNull\<rparr>)))\<rparr>"

text \<open>The same world, with a server that gives the reply \<open>r\<close> every time.\<close>

definition replying_world :: "outcome \<Rightarrow> world" where
  "replying_world r = stubborn_world\<lparr>client_at := (\<lambda>n. a_client (Inr (Dict r)))\<rparr>"

text \<open>The same world, with a server that cannot be reached.\<close>

definition offline_world :: world where
  "offline_world =
     stubborn_world\<lparr>client_at :=
       (\<lambda>n. (a_client (Inr NotDict))\<lparr>post := (\<lambda>t p. Inl (Exn ''connection refused''))\<rparr>)\<rparr>"




text \<open>The same world, except that the generated code binds nothing.\<close>

definition idle_world :: world where
  "idle_world = stubborn_world\<lparr>sandbox_at := (\<lambda>n i. a_sandbox (Inr []))\<rparr>"

text \<open>
  The world in which the code binds nothing and in which, by the time the agent iterations
  start, the clock shows 180 seconds.
\<close>

definition late_world :: world where
  "late_world = idle_world\<lparr>now_iteration := (\<lambda>n i. 180000000)\<rparr>"

text \<open>
  The world in which the code \<open>pass\<close> binds nothing, any other code binds \<open>answer\<close>, and
  the reasoning collaborator asks for \<open>pass\<close> every time.
\<close>

definition picky_world :: world where
  "picky_world =
     stubborn_world\<lparr>sandbox_at := (\<lambda>n i.
       \<lparr>py_exec = (\<lambda>c x. \<lparr>out_buffer = [], err_buffer = [],
                           finished = Inr (if c = ''pass'' then [] else [(''answer'', PInt 42)])\<rparr>),
        wait_for = (\<lambda>c x t. Returned)\<rparr>)\<rparr>"

text \<open>The same world, with a reasoning collaborator that gives a final answer at once.\<close>

definition decided_world :: world where
  "decided_world =
     stubborn_world\<lparr>call_agent_llm :=
       (\<lambda>n a f m h i. Inr \<lparr>code = None, final_answer = PStr ''42''\<rparr>)\<rparr>"

text \<open>
  The same world, except that the server accepts every answer and names, in its reply to
  attempt \<open>n\<close>, a fresh location: the \<open>n\<close>-th page of a sequence of pairwise different
  pages.
\<close>

definition quiz_page :: "nat \<Rightarrow> string" where
  "quiz_page n = ''http://quiz/'' @ replicate n (CHR ''i'')"

definition advancing_world :: world where
  "advancing_world =
     stubborn_world\<lparr>client_at :=
       (\<lambda>n. a_client (Inr (Dict \<lparr>correct = True, reason = None,
                                  url = JStr (quiz_page n)\<rparr>)))\<rparr>"

text \<open>The session of that world after \<open>n\<close> passes, started at page 0.\<close>

definition advancing_session :: "nat \<Rightarrow> session" where
  "advancing_session n =
     \<lparr>current_url = JStr (quiz_page n), total_attempts = n,
      url_attempt_counts =
        (\<lambda>k. if k \<in> (\<lambda>i. JStr (quiz_page i)) ` {..<n} then Some 1 else None),
      visited_urls = map (\<lambda>i. JStr (quiz_page i)) [0..<n]\<rparr>"

text \<open>
  The world in which the server rejects the answer and names, as next location, a list
  holding a URL.
\<close>

definition listing_world :: world where
  "listing_world =
     replying_world \<lparr>correct = False, reason = None, url = JArray [JStr ''http://quiz/1'']\<rparr>"

text \<open>
  The session when it starts at \<open>http://quiz/0\<close>, and while it processes that location for
  the first and for the second time.
\<close>

definition fresh_session :: session where
  "fresh_session =
     \<lparr>current_url = JStr ''http://quiz/0'', total_attempts = 0,
      url_attempt_counts = Map.empty, visited_urls = []\<rparr>"

definition first_try :: session where
  "first_try =
     \<lparr>current_url = JStr ''http://quiz/0'', total_attempts = 1,
      url_attempt_counts = [JStr ''http://quiz/0'' \<mapsto> 1],
      visited_urls = [JStr ''http://quiz/0'']\<rparr>"

definition second_try :: session where
  "second_try =
     \<lparr>current_url = JStr ''http://quiz/0'', total_attempts = 2,
      url_attempt_counts = [JStr ''http://quiz/0'' \<mapsto> 2],
      visited_urls = [JStr ''http://quiz/0'', JStr ''http://quiz/0'']\<rparr>"

definition a_request :: quiz_request where
  "a_request = \<lparr>req_email = ''me@example.org'', req_secret = ''s3cret'', req_url = ''http://quiz/0''\<rparr>"

section \<open>Properties of the orchestrator loop\<close>

lemma handle_submission_keeps:
  "total_attempts (state_of (handle_submission r st)) = total_attempts st"
  "url_attempt_counts (state_of (handle_submission r st)) = url_attempt_counts st"
  "visited_urls (state_of (handle_submission r st)) = visited_urls st"
  by (simp_all add: handle_submission_def Let_def)

lemma attempt_keeps:
  assumes "attempt w email secret deadline max_iterations tr st = Inr ex"
  shows "total_attempts (state_of ex) = total_attempts st"
    and "url_attempt_counts (state_of ex) = url_attempt_counts st"
    and "visited_urls (state_of ex) = visited_urls st"
  using assms
  by (auto simp: attempt_def Let_def handle_submission_keeps
        split: sum.splits option.splits if_splits reply.splits)

text \<open>
  A pass ends at safety check 1, or at the dict access of line 47, or at safety check 2 or
  3, or it runs its attempt; in the last case the counters and the visited sequence are
  those of the state the attempt started in.
\<close>

lemma loop_body_cases:
  fixes st :: session
  defines "st1 \<equiv> st\<lparr>total_attempts := total_attempts st + 1\<rparr>"
  defines "st2 \<equiv> st1\<lparr>url_attempt_counts := put (url_attempt_counts st) (current_url st)
                     (get0 (url_attempt_counts st) (current_url st) + 1)\<rparr>"
  defines "st3 \<equiv> st2\<lparr>visited_urls := visited_urls st @ [current_url st]\<rparr>"
  shows "(loop_body w email secret deadline max_iterations st = Break st1
            \<and> total_attempts st \<ge> MAX_TOTAL_ATTEMPTS)
       \<or> (loop_body w email secret deadline max_iterations st = Escape unhashable_error st1
            \<and> total_attempts st < MAX_TOTAL_ATTEMPTS \<and> \<not> hashable (current_url st))
       \<or> (loop_body w email secret deadline max_iterations st = Break st2
            \<and> total_attempts st < MAX_TOTAL_ATTEMPTS \<and> hashable (current_url st))
       \<or> (total_attempts st < MAX_TOTAL_ATTEMPTS \<and> hashable (current_url st)
            \<and> get0 (url_attempt_counts st) (current_url st) < MAX_ATTEMPTS_PER_URL
            \<and> total_attempts (state_of (loop_body w email secret deadline max_iterations st)) = total_attempts st3
            \<and> url_attempt_counts (state_of (loop_body w email secret deadline max_iterations st)) = url_attempt_counts st3
            \<and> visited_urls (state_of (loop_body w email secret deadline max_iterations st)) = visited_urls st3)"
  unfolding st1_def st2_def st3_def
  by (auto simp: loop_body_def Let_def get0_def put_def attempt_keeps split: sum.splits)

lemma loop_body_total:
  "total_attempts (state_of (loop_body w email secret deadline max_iterations st)) = total_attempts st + 1"
  using loop_body_cases [of w email secret deadline max_iterations st] by auto

lemma loop_body_continue_below:
  "loop_body w email secret deadline max_iterations st = Continue st'
   \<Longrightarrow> total_attempts st' \<le> MAX_TOTAL_ATTEMPTS"
  using loop_body_cases [of w email secret deadline max_iterations st] by auto

lemma loop_body_inv:
  assumes inv: "session_inv st"
  shows "session_inv (state_of (loop_body w email secret deadline max_iterations st))"
proof -
  let ?st' = "state_of (loop_body w email secret deadline max_iterations st)"
  let ?c = "current_url st"
  let ?n = "\<lambda>k. case url_attempt_counts st k of None \<Rightarrow> 0 | Some n \<Rightarrow> n"
  from inv have len: "length (visited_urls st) \<le> total_attempts st"
    and len_max: "length (visited_urls st) \<le> MAX_TOTAL_ATTEMPTS"
    and cnt: "count_list (map key_of (visited_urls st)) k \<le> ?n k"
    and cnt_max: "count_list (map key_of (visited_urls st)) k \<le> MAX_ATTEMPTS_PER_URL" for k
    by (simp_all add: session_inv_def)
  from loop_body_cases [of w email secret deadline max_iterations st]
  consider
    (early) "?st' = st\<lparr>total_attempts := total_attempts st + 1\<rparr>"
  | (per_url) "?st' = st\<lparr>total_attempts := total_attempts st + 1,
        url_attempt_counts := put (url_attempt_counts st) ?c (get0 (url_attempt_counts st) ?c + 1)\<rparr>"
  | (processed) "total_attempts st < MAX_TOTAL_ATTEMPTS"
      "get0 (url_attempt_counts st) ?c < MAX_ATTEMPTS_PER_URL"
      "total_attempts ?st' = total_attempts st + 1"
      "url_attempt_counts ?st' = put (url_attempt_counts st) ?c (get0 (url_attempt_counts st) ?c + 1)"
      "visited_urls ?st' = visited_urls st @ [?c]"
    by auto
  then show ?thesis
  proof cases
    case early
    with len len_max cnt cnt_max show ?thesis
      by (simp add: session_inv_def)
  next
    case per_url
    have "count_list (map key_of (visited_urls st)) k
            \<le> (case put (url_attempt_counts st) ?c (get0 (url_attempt_counts st) ?c + 1) k of
                  None \<Rightarrow> 0 | Some n \<Rightarrow> n)" for k
      using cnt [of k] by (auto simp add: get0_def put_def)
    with per_url len len_max cnt_max show ?thesis
      by (simp add: session_inv_def)
  next
    case processed
    have "count_list (map key_of (visited_urls st @ [?c])) k
            \<le> (case put (url_attempt_counts st) ?c (get0 (url_attempt_counts st) ?c + 1) k of
                  None \<Rightarrow> 0 | Some n \<Rightarrow> n)" for k
      using cnt [of k] by (auto simp add: get0_def put_def)
    moreover have "count_list (map key_of (visited_urls st @ [?c])) k \<le> MAX_ATTEMPTS_PER_URL" for k
      using cnt [of "key_of ?c"] cnt_max [of k] processed(2) by (auto simp: get0_def)
    ultimately show ?thesis
      using processed len len_max by (simp add: session_inv_def)
  qed
qed

lemma run_loop_stop:
  "\<not> (truthy (current_url st) \<and> now_loop w (total_attempts st) < deadline)
   \<Longrightarrow> run_loop w email secret deadline max_iterations st = Returns st"
  by (subst run_loop.simps) auto

lemma run_loop_break:
  "truthy (current_url st) \<Longrightarrow> now_loop w (total_attempts st) < deadline
   \<Longrightarrow> loop_body w email secret deadline max_iterations st = Break st'
   \<Longrightarrow> run_loop w email secret deadline max_iterations st = Returns st'"
  by (subst run_loop.simps) simp

lemma run_loop_escape:
  "truthy (current_url st) \<Longrightarrow> now_loop w (total_attempts st) < deadline
   \<Longrightarrow> loop_body w email secret deadline max_iterations st = Escape e st'
   \<Longrightarrow> run_loop w email secret deadline max_iterations st = Raises e st'"
  by (subst run_loop.simps) simp

lemma run_loop_continue:
  "truthy (current_url st) \<Longrightarrow> now_loop w (total_attempts st) < deadline
   \<Longrightarrow> loop_body w email secret deadline max_iterations st = Continue st'
   \<Longrightarrow> run_loop w email secret deadline max_iterations st
       = run_loop w email secret deadline max_iterations st'"
  by (subst run_loop.simps) simp

text \<open>
  A property that holds of the starting state, that every pass keeps and that depends on the
  session only holds of the state in which the loop ends.
\<close>

lemma run_loop_induct_state:
  assumes "P st"
    and "\<And>s. P s \<Longrightarrow> P (state_of (loop_body w email secret deadline max_iterations s))"
  shows "P (final (run_loop w email secret deadline max_iterations st))"
  using assms
proof (induction w email secret deadline max_iterations st rule: run_loop.induct)
  case (1 w email secret deadline max_iterations st)
  show ?case
  proof (cases "truthy (current_url st) \<and> now_loop w (total_attempts st) < deadline")
    case False
    then show ?thesis using "1.prems"(1) by (simp add: run_loop_stop)
  next
    case True
    have next_state: "P (state_of (loop_body w email secret deadline max_iterations st))"
      using "1.prems"(1) by (rule "1.prems"(2))
    show ?thesis
    proof (cases "loop_body w email secret deadline max_iterations st")
      case (Break st')
      with True next_state show ?thesis by (simp add: run_loop_break)
    next
      case (Continue st')
      with next_state have "P st'" by simp
      with "1.IH" [OF True Continue] "1.prems"(2) True Continue show ?thesis
        by (simp add: run_loop_continue)
    next
      case (Escape e st')
      with True next_state show ?thesis by (simp add: run_loop_escape)
    qed
  qed
qed

lemma run_loop_inv:
  "session_inv st \<Longrightarrow> session_inv (final (run_loop w email secret deadline max_iterations st))"
  by (rule run_loop_induct_state) (simp_all add: loop_body_inv)

lemma run_loop_total_mono:
  "total_attempts st \<le> total_attempts (final (run_loop w email secret deadline max_iterations st))"
proof -
  have "total_attempts st \<le> total_attempts st" by simp
  then show ?thesis
  proof (rule run_loop_induct_state [where P = "\<lambda>s::session. total_attempts st \<le> total_attempts s"])
    fix s :: session assume "total_attempts st \<le> total_attempts s"
    then show "total_attempts st
                 \<le> total_attempts (state_of (loop_body w email secret deadline max_iterations s))"
      by (simp add: loop_body_total)
  qed
qed

lemma run_loop_total_le:
  "total_attempts st \<le> MAX_TOTAL_ATTEMPTS
   \<Longrightarrow> total_attempts (final (run_loop w email secret deadline max_iterations st))
         \<le> MAX_TOTAL_ATTEMPTS + 1"
proof (induction w email secret deadline max_iterations st rule: run_loop.induct)
  case (1 w email secret deadline max_iterations st)
  show ?case
  proof (cases "truthy (current_url st) \<and> now_loop w (total_attempts st) < deadline")
    case False
    then show ?thesis using "1.prems" by (simp add: run_loop_stop)
  next
    case True
    show ?thesis
    proof (cases "loop_body w email secret deadline max_iterations st")
      case (Break st')
      with True loop_body_total [of w email secret deadline max_iterations st] "1.prems"
      show ?thesis by (simp add: run_loop_break)
    next
      case (Continue st')
      then have "total_attempts st' \<le> MAX_TOTAL_ATTEMPTS"
        by (rule loop_body_continue_below)
      with True Continue "1.IH" [OF True Continue]
      show ?thesis by (simp add: run_loop_continue)
    next
      case (Escape e st')
      with True loop_body_total [of w email secret deadline max_iterations st] "1.prems"
      show ?thesis by (simp add: run_loop_escape)
    qed
  qed
qed

lemma final_run_quiz_agent:
  "final (run_quiz_agent w quiz_url email secret deadline max_iterations)
   = final (run_loop w email secret deadline max_iterations
              \<lparr>current_url = JStr quiz_url, total_attempts = 0,
               url_attempt_counts = Map.empty, visited_urls = []\<rparr>)"
  by (simp add: run_quiz_agent_def split: run_result.splits sum.splits)

lemma count_list_key_of: "count_list xs u \<le> count_list (map key_of xs) (key_of u)"
  by (induction xs) auto

lemma get0_put:
  "get0 (put d k v) k' = (if key_of k = key_of k' then v else get0 d k')"
  by (simp add: get0_def put_def)

lemma loop_body_counts_other:
  "key_of u \<noteq> key_of (current_url st) \<Longrightarrow>
   get0 (url_attempt_counts (state_of (loop_body w email secret deadline max_iterations st))) u
     = get0 (url_attempt_counts st) u"
  using loop_body_cases [of w email secret deadline max_iterations st]
  by (auto simp: get0_put)

text \<open>
  A pass that passes the safety checks ends as its attempt ends; of the exceptions that
  leave the \<open>try\<close> block, those of class \<open>Exception\<close> send the loop to its next pass.
\<close>

lemma loop_body_processed:
  assumes "total_attempts st < MAX_TOTAL_ATTEMPTS"
    and "hashable (current_url st)"
    and "get0 (url_attempt_counts st) (current_url st) < MAX_ATTEMPTS_PER_URL"
    and "\<not> deadline - now_guard w (total_attempts st + 1) < 10 * 1000000"
  shows "loop_body w email secret deadline max_iterations st =
           (case attempt w email secret deadline max_iterations
                   (deadline - now_guard w (total_attempts st + 1))
                   (st\<lparr>total_attempts := total_attempts st + 1,
                       url_attempt_counts := put (url_attempt_counts st) (current_url st)
                         (get0 (url_attempt_counts st) (current_url st) + 1),
                       visited_urls := visited_urls st @ [current_url st]\<rparr>) of
              Inr ex \<Rightarrow> ex
            | Inl e \<Rightarrow>
                (if is_exception e then
                   Continue (st\<lparr>total_attempts := total_attempts st + 1,
                       url_attempt_counts := put (url_attempt_counts st) (current_url st)
                         (get0 (url_attempt_counts st) (current_url st) + 1),
                       visited_urls := visited_urls st @ [current_url st]\<rparr>)
                 else
                   Escape e (st\<lparr>total_attempts := total_attempts st + 1,
                       url_attempt_counts := put (url_attempt_counts st) (current_url st)
                         (get0 (url_attempt_counts st) (current_url st) + 1),
                       visited_urls := visited_urls st @ [current_url st]\<rparr>)))"
  using assms by (simp add: loop_body_def Let_def get0_put split: sum.splits)



text \<open>When the attempt reaches the submission, it ends as the reply decides.\<close>

lemma attempt_submitted:
  assumes "load_page w (total_attempts st) (current_url st) = Inr ex"
    and "call_analyzer_llm w (total_attempts st) ex tr max_iterations = Inr a"
    and "download_all w (total_attempts st) (resources a) [] = Inr fs"
    and "preprocess w (total_attempts st) fs a = Inr md"
    and "agent_loop w (total_attempts st) deadline a fs md max_iterations = Inr (answer, hist)"
    and "answer \<noteq> PNone" and "submission_link a = Some target" and "target \<noteq> []"
    and "fst (submit_answer (client_at w (total_attempts st)) target email secret
                (current_url st) answer) = Inr (Dict r)"
  shows "attempt w email secret deadline max_iterations tr st = Inr (handle_submission r st)"
  using assms by (simp add: attempt_def extract_quiz_content_def Let_def)

lemma loop_body_submitted:
  assumes "total_attempts st < MAX_TOTAL_ATTEMPTS"
    and "hashable (current_url st)"
    and "get0 (url_attempt_counts st) (current_url st) < MAX_ATTEMPTS_PER_URL"
    and "\<not> deadline - now_guard w n < 10 * 1000000"
    and "load_page w n (current_url st) = Inr ex"
    and "call_analyzer_llm w n ex (deadline - now_guard w n) max_iterations = Inr a"
    and "download_all w n (resources a) [] = Inr fs"
    and "preprocess w n fs a = Inr md"
    and "agent_loop w n deadline a fs md max_iterations = Inr (answer, hist)"
    and "answer \<noteq> PNone" and "submission_link a = Some target" and "target \<noteq> []"
    and "fst (submit_answer (client_at w n) target email secret (current_url st) answer)
           = Inr (Dict r)"
    and "n = total_attempts st + 1"
    and "sta = st\<lparr>total_attempts := total_attempts st + 1,
                   url_attempt_counts := put (url_attempt_counts st) (current_url st)
                     (get0 (url_attempt_counts st) (current_url st) + 1),
                   visited_urls := visited_urls st @ [current_url st]\<rparr>"
  shows "loop_body w email secret deadline max_iterations st = handle_submission r sta"
proof -
  have "attempt w email secret deadline max_iterations (deadline - now_guard w n) sta
          = Inr (handle_submission r sta)"
    using assms by (intro attempt_submitted [where ex = ex and a = a and fs = fs and md = md
          and answer = answer and hist = hist and target = target]) simp_all
  then show ?thesis
    using assms loop_body_processed [of st deadline w email secret max_iterations] by simp
qed

section \<open>Evaluating the scenarios\<close>

lemma upto_1_2: "[1..2::int] = [1, 2]"
  by (simp add: upto_rec1)

lemmas scenario_defs = run_quiz_agent_def loop_body_def attempt_def stubborn_world_def
  a_client_def a_sandbox_def an_analysis_def agent_loop_def submit_answer_def normalized_def
  failure_reply_def handle_submission_def execute_code_def execute_sync_def extract_result_def
  result_names_def preprocess_def extract_quiz_content_def get0_def put_def py_eq_def summary_def
  MAX_TOTAL_ATTEMPTS_def MAX_ATTEMPTS_PER_URL_def Let_def upto_1_2

lemma stubborn_run:
  "run_quiz_agent stubborn_world ''http://quiz/0'' ''e'' ''s'' 180000000 2 = Returns second_try"
  by (simp add: second_try_def run_loop.simps scenario_defs numeral_2_eq_2)

text \<open>The run of the advancing world: thirty locations, then the global ceiling.\<close>

lemma quiz_page_inj [simp]: "quiz_page a = quiz_page b \<longleftrightarrow> a = b"
proof
  assume "quiz_page a = quiz_page b"
  then have "length (quiz_page a) = length (quiz_page b)" by simp
  then show "a = b" by (simp add: quiz_page_def)
qed simp

lemma quiz_page_nonempty [simp]: "quiz_page n \<noteq> []"
  by (simp add: quiz_page_def)

lemma advancing_pass:
  assumes "total_attempts st < 30"
    and "hashable (current_url st)"
    and "get0 (url_attempt_counts st) (current_url st) < 2"
    and "current_url st \<noteq> JStr (quiz_page (total_attempts st + 1))"
    and "\<forall>b. current_url st \<noteq> JBool b"
  shows "loop_body advancing_world email secret 180000000 2 st =
           Continue (st\<lparr>total_attempts := total_attempts st + 1,
             url_attempt_counts := put (url_attempt_counts st) (current_url st)
               (get0 (url_attempt_counts st) (current_url st) + 1),
             visited_urls := visited_urls st @ [current_url st],
             current_url := JStr (quiz_page (total_attempts st + 1))\<rparr>)"
proof -
  have "key_of (current_url st) = current_url st"
    using assms(5) by (cases "current_url st") auto
  then show ?thesis
    using assms by (simp add: advancing_world_def scenario_defs)
qed

lemma advancing_session_pass:
  assumes "n < 30"
  shows "loop_body advancing_world email secret 180000000 2 (advancing_session n)
         = Continue (advancing_session (Suc n))"
proof -
  have "put (\<lambda>k. if k \<in> (\<lambda>i. JStr (quiz_page i)) ` {..<n} then Some (1::nat) else None)
            (JStr (quiz_page n)) 1
        = (\<lambda>k. if k \<in> (\<lambda>i. JStr (quiz_page i)) ` {..<Suc n} then Some 1 else None)"
    by (auto simp: fun_eq_iff lessThan_Suc put_def)
  moreover have "get0 (\<lambda>k. if k \<in> (\<lambda>i. JStr (quiz_page i)) ` {..<n} then Some (1::nat) else None)
                   (JStr (quiz_page n)) = 0"
    by (auto simp: get0_def)
  ultimately show ?thesis
    using assms advancing_pass [of "advancing_session n" email secret]
    by (simp add: advancing_session_def)
qed

lemma advancing_session_last:
  "loop_body advancing_world email secret 180000000 2 (advancing_session 30)
   = Break ((advancing_session 30)\<lparr>total_attempts := 31\<rparr>)"
  by (simp add: loop_body_def MAX_TOTAL_ATTEMPTS_def advancing_session_def)

lemma advancing_clock [simp]: "now_loop advancing_world n = 0"
  by (simp add: advancing_world_def stubborn_world_def)

lemma advancing_loop:
  "n \<le> 30 \<Longrightarrow> run_loop advancing_world email secret 180000000 2 (advancing_session n)
     = Returns ((advancing_session 30)\<lparr>total_attempts := 31\<rparr>)"
proof (induction "30 - n" arbitrary: n)
  case 0
  then have "n = 30" by simp
  then show ?case
    using advancing_session_last [of email secret]
    by (simp add: run_loop_break advancing_session_def)
next
  case (Suc k)
  then have "n < 30" by simp
  then have "run_loop advancing_world email secret 180000000 2 (advancing_session n)
           = run_loop advancing_world email secret 180000000 2 (advancing_session (Suc n))"
    using advancing_session_pass [of n email secret]
    by (intro run_loop_continue) (simp_all add: advancing_session_def)
  also have "\<dots> = Returns ((advancing_session 30)\<lparr>total_attempts := 31\<rparr>)"
    using Suc by (intro Suc.hyps(1)) simp_all
  finally show ?case .
qed

lemma advancing_run:
  "final (run_quiz_agent advancing_world (quiz_page 0) ''e'' ''s'' 180000000 2)
   = (advancing_session 30)\<lparr>total_attempts := 31\<rparr>"
proof -
  have "final (run_quiz_agent advancing_world (quiz_page 0) ''e'' ''s'' 180000000 2)
        = final (run_loop advancing_world ''e'' ''s'' 180000000 2 (advancing_session 0))"
    by (simp add: final_run_quiz_agent advancing_session_def)
  also have "\<dots> = (advancing_session 30)\<lparr>total_attempts := 31\<rparr>"
    by (simp add: advancing_loop)
  finally show ?thesis .
qed

section \<open>C1: result extraction\<close>

text \<open>
  Where the claim and the code agree: a name of the priority list that is bound to a value
  other than \<open>None\<close> decides the result, and when none of the four names is bound the
  result is the last binding that is neither callable nor underscore-prefixed, or \<open>None\<close>
  when there is none.
\<close>

lemma extract_result_named:
  "named_result result_names lv \<noteq> PNone \<Longrightarrow> extract_result lv = named_result result_names lv"
  by (simp add: extract_result_def Let_def)

lemma extract_result_unnamed:
  "\<forall>name\<in>set result_names. map_of lv name = None \<Longrightarrow>
   extract_result lv = last_assigned (rev lv) PNone"
  by (cases lv) (simp_all add: extract_result_def result_names_def Let_def)

lemma last_assigned_none:
  "\<forall>(key, v)\<in>set kvs. callable v \<or> startswith_underscore key \<Longrightarrow> last_assigned kvs r = r"
  by (induction kvs) auto

text \<open>
  C1. The claim says that the first bound name of \<open>result\<close>, \<open>answer\<close>, \<open>output\<close>,
  \<open>final_answer\<close> gives the result and that the fallback runs only when none of them is
  bound. The code falls back whenever the value found is \<open>None\<close>: the code
  \<open>result = None; x = 5\<close> leaves the bindings \<open>result\<close>, \<open>x\<close> in that order, and
  \<open>execute_code\<close> reports the value of \<open>x\<close>, 5, where the claim gives the value of
  \<open>result\<close>, \<open>None\<close>.
\<close>

theorem execute_code_none_result:
  "execute_code (a_sandbox (Inr [(''result'', PNone), (''x'', PInt 5)])) ''result = None; x = 5''
     \<lparr>ctx_downloaded_files = [], ctx_file_metadata = [], ctx_analysis = an_analysis\<rparr> 60
   = Inr \<lparr>success = True, result = PInt 5, stdout = [], stderr = [], error = None\<rparr>"
  by (simp add: execute_code_def execute_sync_def a_sandbox_def extract_result_def result_names_def)

section \<open>C2: bounded attempts\<close>

text \<open>
  C2. For every world (whatever the server answers and whatever the attempt bodies do) and
  every starting location, the attempts that reach processing, which are the entries of
  \<open>visited_urls\<close>, number at most 30 overall and at most 2 for any single location
  (also when the locations are counted the way a Python dict keys them). The global
  attempt counter grows by exactly one on every pass and never decreases over a run, and
  the loop ends, for every world, with a counter of at most 31: \<open>run_loop\<close> is a total
  function, so this holds in particular against a server that always answers incorrect
  with no next location, and it holds whether \<open>run_quiz_agent\<close> returns or an exception
  leaves it.
\<close>

theorem run_quiz_agent_bounded:
  "length (visited_urls (final (run_quiz_agent w quiz_url email secret deadline max_iterations)))
     \<le> MAX_TOTAL_ATTEMPTS
   \<and> count_list (visited_urls (final (run_quiz_agent w quiz_url email secret deadline max_iterations))) u
     \<le> MAX_ATTEMPTS_PER_URL
   \<and> count_list (map key_of
        (visited_urls (final (run_quiz_agent w quiz_url email secret deadline max_iterations)))) k
     \<le> MAX_ATTEMPTS_PER_URL
   \<and> total_attempts (final (run_quiz_agent w quiz_url email secret deadline max_iterations))
     \<le> MAX_TOTAL_ATTEMPTS + 1
   \<and> total_attempts (state_of (loop_body w email secret deadline max_iterations st))
     = total_attempts st + 1
   \<and> total_attempts st
     \<le> total_attempts (final (run_loop w email secret deadline max_iterations st))"
proof -
  let ?st0 = "\<lparr>current_url = JStr quiz_url, total_attempts = 0,
               url_attempt_counts = Map.empty, visited_urls = []\<rparr>"
  let ?end = "final (run_loop w email secret deadline max_iterations ?st0)"
  have "session_inv ?st0"
    by (simp add: session_inv_def)
  then have inv: "session_inv ?end"
    by (rule run_loop_inv)
  then have per_key: "count_list (map key_of (visited_urls ?end)) k' \<le> MAX_ATTEMPTS_PER_URL" for k'
    by (simp add: session_inv_def)
  have "count_list (visited_urls ?end) u \<le> count_list (map key_of (visited_urls ?end)) (key_of u)"
    by (rule count_list_key_of)
  also have "\<dots> \<le> MAX_ATTEMPTS_PER_URL"
    by (rule per_key)
  finally have per_url: "count_list (visited_urls ?end) u \<le> MAX_ATTEMPTS_PER_URL" .
  have "total_attempts ?end \<le> MAX_TOTAL_ATTEMPTS + 1"
    by (rule run_loop_total_le) simp
  with inv per_url per_key [of k] show ?thesis
    using loop_body_total [of w email secret deadline max_iterations st]
      run_loop_total_mono [of st w email secret deadline max_iterations]
    by (simp add: final_run_quiz_agent session_inv_def)
qed

section \<open>C3: failures inside one attempt\<close>




section \<open>C4: an incorrect answer\<close>

text \<open>
  C4. Take a pass of the loop that passes the safety checks, obtains an answer and a
  submission target, and whose submission comes back as a dict with \<open>correct\<close> false. If
  the reply carries a next location (a true \<open>url\<close>) that differs from the current one,
  the loop goes on from that location, and the pass that follows leaves the old location's
  counter as it was. Otherwise, if the current location's count is below the per-location
  ceiling, the loop goes on from the same location. Otherwise it goes on from the next
  location if one is present, and the session stops if none is.
\<close>

theorem incorrect_answer_transition:
  assumes "truthy (current_url st)" and "now_loop w (total_attempts st) < deadline"
    and "total_attempts st < MAX_TOTAL_ATTEMPTS"
    and "hashable (current_url st)"
    and "get0 (url_attempt_counts st) (current_url st) < MAX_ATTEMPTS_PER_URL"
    and "\<not> deadline - now_guard w n < 10 * 1000000"
    and "load_page w n (current_url st) = Inr ex"
    and "call_analyzer_llm w n ex (deadline - now_guard w n) max_iterations = Inr a"
    and "download_all w n (resources a) [] = Inr fs"
    and "preprocess w n fs a = Inr md"
    and "agent_loop w n deadline a fs md max_iterations = Inr (answer, hist)"
    and "answer \<noteq> PNone" and "submission_link a = Some target" and "target \<noteq> []"
    and "fst (submit_answer (client_at w n) target email secret (current_url st) answer)
           = Inr (Dict r)"
    and "n = total_attempts st + 1"
    and "sta = st\<lparr>total_attempts := total_attempts st + 1,
                   url_attempt_counts := put (url_attempt_counts st) (current_url st)
                     (get0 (url_attempt_counts st) (current_url st) + 1),
                   visited_urls := visited_urls st @ [current_url st]\<rparr>"
    and "\<not> correct r"
  shows "(truthy (url r) \<and> \<not> py_eq (url r) (current_url st) \<longrightarrow>
            loop_body w email secret deadline max_iterations st
              = Continue (sta\<lparr>current_url := url r\<rparr>)
            \<and> run_loop w email secret deadline max_iterations st
              = run_loop w email secret deadline max_iterations (sta\<lparr>current_url := url r\<rparr>)
            \<and> get0 (url_attempt_counts
                      (state_of (loop_body w email secret deadline max_iterations
                                   (sta\<lparr>current_url := url r\<rparr>))))
                 (current_url st)
               = get0 (url_attempt_counts sta) (current_url st))
       \<and> (\<not> (truthy (url r) \<and> \<not> py_eq (url r) (current_url st))
            \<and> get0 (url_attempt_counts sta) (current_url st) < MAX_ATTEMPTS_PER_URL \<longrightarrow>
            loop_body w email secret deadline max_iterations st = Continue sta
            \<and> run_loop w email secret deadline max_iterations st
              = run_loop w email secret deadline max_iterations sta)
       \<and> (\<not> (truthy (url r) \<and> \<not> py_eq (url r) (current_url st))
            \<and> \<not> get0 (url_attempt_counts sta) (current_url st) < MAX_ATTEMPTS_PER_URL
            \<and> truthy (url r) \<longrightarrow>
            loop_body w email secret deadline max_iterations st
              = Continue (sta\<lparr>current_url := url r\<rparr>)
            \<and> run_loop w email secret deadline max_iterations st
              = run_loop w email secret deadline max_iterations (sta\<lparr>current_url := url r\<rparr>))
       \<and> (\<not> (truthy (url r) \<and> \<not> py_eq (url r) (current_url st))
            \<and> \<not> get0 (url_attempt_counts sta) (current_url st) < MAX_ATTEMPTS_PER_URL
            \<and> \<not> truthy (url r) \<longrightarrow>
            loop_body w email secret deadline max_iterations st = Break sta
            \<and> run_loop w email secret deadline max_iterations st = Returns sta)"
proof -
  have body: "loop_body w email secret deadline max_iterations st = handle_submission r sta"
    using assms(3-17) by (rule loop_body_submitted)
  have cur: "current_url sta = current_url st"
    using assms(17) by simp
  have later: "get0 (url_attempt_counts
                      (state_of (loop_body w email secret deadline max_iterations
                                   (sta\<lparr>current_url := url r\<rparr>))))
                 (current_url st)
               = get0 (url_attempt_counts sta) (current_url st)"
    if "\<not> py_eq (url r) (current_url st)"
    using that
      loop_body_counts_other [of "current_url st" "sta\<lparr>current_url := url r\<rparr>"
        w email secret deadline max_iterations]
    by (simp add: py_eq_def eq_commute)
  show ?thesis
    using assms(1,2,18) cur later
    by (auto simp: body handle_submission_def Let_def run_loop_break run_loop_continue)
qed

text \<open>
  Witness for C4: one reply of the server for each of the four cases.
\<close>

theorem incorrect_answer_transition_witness:
  "loop_body (replying_world \<lparr>correct = False, reason = None, url = JStr ''http://quiz/1''\<rparr>)
     ''e'' ''s'' 180000000 2 fresh_session
     = Continue (first_try\<lparr>current_url := JStr ''http://quiz/1''\<rparr>)
   \<and> get0 (url_attempt_counts (state_of
        (loop_body (replying_world \<lparr>correct = False, reason = None, url = JStr ''http://quiz/1''\<rparr>)
           ''e'' ''s'' 180000000 2 (first_try\<lparr>current_url := JStr ''http://quiz/1''\<rparr>))))
        (JStr ''http://quiz/0'') = 1
   \<and> loop_body (replying_world \<lparr>correct = False, reason = None, url = JNull\<rparr>)
     ''e'' ''s'' 180000000 2 fresh_session = Continue first_try
   \<and> loop_body (replying_world \<lparr>correct = False, reason = None, url = JStr ''http://quiz/0''\<rparr>)
     ''e'' ''s'' 180000000 2 first_try = Continue second_try
   \<and> run_loop (replying_world \<lparr>correct = False, reason = None, url = JNull\<rparr>)
     ''e'' ''s'' 180000000 2 first_try = Returns second_try"
proof -
  note defs = fresh_session_def first_try_def second_try_def replying_world_def scenario_defs
    numeral_2_eq_2
  have "loop_body (replying_world \<lparr>correct = False, reason = None, url = JStr ''http://quiz/1''\<rparr>)
     ''e'' ''s'' 180000000 2 fresh_session
     = Continue (first_try\<lparr>current_url := JStr ''http://quiz/1''\<rparr>)
   \<and> get0 (url_attempt_counts (state_of
        (loop_body (replying_world \<lparr>correct = False, reason = None, url = JStr ''http://quiz/1''\<rparr>)
           ''e'' ''s'' 180000000 2 (first_try\<lparr>current_url := JStr ''http://quiz/1''\<rparr>))))
        (JStr ''http://quiz/0'') = 1"
    using incorrect_answer_transition [where st = fresh_session and sta = first_try
      and w = "replying_world \<lparr>correct = False, reason = None, url = JStr ''http://quiz/1''\<rparr>"
      and r = "\<lparr>correct = False, reason = None, url = JStr ''http://quiz/1''\<rparr>"
      and n = 1 and deadline = 180000000 and max_iterations = 2
      and email = "''e''" and secret = "''s''"
      and ex = "\<lparr>page_text = [], links = [], tables = [], ext_question = []\<rparr>"
      and a = an_analysis and fs = "[]" and md = "[]" and answer = "PInt 42"
      and hist = "[\<lparr>iteration = 1, rec_code = ''pass'',
                    rec_result = \<lparr>success = True, result = PInt 42, stdout = [], stderr = [],
                                  error = None\<rparr>\<rparr>]"
      and target = "''http://quiz/submit''"]
    by (simp add: defs)
  moreover
  have "loop_body (replying_world \<lparr>correct = False, reason = None, url = JNull\<rparr>)
     ''e'' ''s'' 180000000 2 fresh_session = Continue first_try"
    using incorrect_answer_transition [where st = fresh_session and sta = first_try
      and w = "replying_world \<lparr>correct = False, reason = None, url = JNull\<rparr>"
      and r = "\<lparr>correct = False, reason = None, url = JNull\<rparr>"
      and n = 1 and deadline = 180000000 and max_iterations = 2
      and email = "''e''" and secret = "''s''"
      and ex = "\<lparr>page_text = [], links = [], tables = [], ext_question = []\<rparr>"
      and a = an_analysis and fs = "[]" and md = "[]" and answer = "PInt 42"
      and hist = "[\<lparr>iteration = 1, rec_code = ''pass'',
                    rec_result = \<lparr>success = True, result = PInt 42, stdout = [], stderr = [],
                                  error = None\<rparr>\<rparr>]"
      and target = "''http://quiz/submit''"]
    by (simp add: defs)
  moreover
  have "loop_body (replying_world \<lparr>correct = False, reason = None, url = JStr ''http://quiz/0''\<rparr>)
     ''e'' ''s'' 180000000 2 first_try = Continue second_try"
    using incorrect_answer_transition [where st = first_try and sta = second_try
      and w = "replying_world \<lparr>correct = False, reason = None, url = JStr ''http://quiz/0''\<rparr>"
      and r = "\<lparr>correct = False, reason = None, url = JStr ''http://quiz/0''\<rparr>"
      and n = 2 and deadline = 180000000 and max_iterations = 2
      and email = "''e''" and secret = "''s''"
      and ex = "\<lparr>page_text = [], links = [], tables = [], ext_question = []\<rparr>"
      and a = an_analysis and fs = "[]" and md = "[]" and answer = "PInt 42"
      and hist = "[\<lparr>iteration = 1, rec_code = ''pass'',
                    rec_result = \<lparr>success = True, result = PInt 42, stdout = [], stderr = [],
                                  error = None\<rparr>\<rparr>]"
      and target = "''http://quiz/submit''"]
    by (simp add: defs)
  moreover
  have "run_loop (replying_world \<lparr>correct = False, reason = None, url = JNull\<rparr>)
     ''e'' ''s'' 180000000 2 first_try = Returns second_try"
    using incorrect_answer_transition [where st = first_try and sta = second_try
      and w = "replying_world \<lparr>correct = False, reason = None, url = JNull\<rparr>"
      and r = "\<lparr>correct = False, reason = None, url = JNull\<rparr>"
      and n = 2 and deadline = 180000000 and max_iterations = 2
      and email = "''e''" and secret = "''s''"
      and ex = "\<lparr>page_text = [], links = [], tables = [], ext_question = []\<rparr>"
      and a = an_analysis and fs = "[]" and md = "[]" and answer = "PInt 42"
      and hist = "[\<lparr>iteration = 1, rec_code = ''pass'',
                    rec_result = \<lparr>success = True, result = PInt 42, stdout = [], stderr = [],
                                  error = None\<rparr>\<rparr>]"
      and target = "''http://quiz/submit''"]
    by (simp add: defs)
  ultimately show ?thesis by blast
qed

section \<open>C5: a correct answer\<close>

text \<open>
  C5. Take a pass of the loop that passes the safety checks, obtains an answer and a
  submission target, and whose submission comes back as a dict with \<open>correct\<close> true. The
  session stops if no next location is given (\<open>url\<close> missing, null or otherwise false),
  stops if the next location is the current one, and otherwise the loop goes on from the
  next location.
\<close>

theorem correct_answer_transition:
  assumes "truthy (current_url st)" and "now_loop w (total_attempts st) < deadline"
    and "total_attempts st < MAX_TOTAL_ATTEMPTS"
    and "hashable (current_url st)"
    and "get0 (url_attempt_counts st) (current_url st) < MAX_ATTEMPTS_PER_URL"
    and "\<not> deadline - now_guard w n < 10 * 1000000"
    and "load_page w n (current_url st) = Inr ex"
    and "call_analyzer_llm w n ex (deadline - now_guard w n) max_iterations = Inr a"
    and "download_all w n (resources a) [] = Inr fs"
    and "preprocess w n fs a = Inr md"
    and "agent_loop w n deadline a fs md max_iterations = Inr (answer, hist)"
    and "answer \<noteq> PNone" and "submission_link a = Some target" and "target \<noteq> []"
    and "fst (submit_answer (client_at w n) target email secret (current_url st) answer)
           = Inr (Dict r)"
    and "n = total_attempts st + 1"
    and "sta = st\<lparr>total_attempts := total_attempts st + 1,
                   url_attempt_counts := put (url_attempt_counts st) (current_url st)
                     (get0 (url_attempt_counts st) (current_url st) + 1),
                   visited_urls := visited_urls st @ [current_url st]\<rparr>"
    and "correct r"
  shows "(\<not> truthy (url r) \<longrightarrow>
            loop_body w email secret deadline max_iterations st = Break sta
            \<and> run_loop w email secret deadline max_iterations st = Returns sta)
       \<and> (truthy (url r) \<and> py_eq (url r) (current_url st) \<longrightarrow>
            loop_body w email secret deadline max_iterations st = Break sta
            \<and> run_loop w email secret deadline max_iterations st = Returns sta)
       \<and> (truthy (url r) \<and> \<not> py_eq (url r) (current_url st) \<longrightarrow>
            loop_body w email secret deadline max_iterations st
              = Continue (sta\<lparr>current_url := url r\<rparr>)
            \<and> run_loop w email secret deadline max_iterations st
              = run_loop w email secret deadline max_iterations (sta\<lparr>current_url := url r\<rparr>))"
proof -
  have body: "loop_body w email secret deadline max_iterations st = handle_submission r sta"
    using assms(3-17) by (rule loop_body_submitted)
  have cur: "current_url sta = current_url st"
    using assms(17) by simp
  show ?thesis
    using assms(1,2,18) cur
    by (auto simp: body handle_submission_def Let_def run_loop_break run_loop_continue)
qed

text \<open>
  Witness for C5: one reply of the server for each of the three cases.
\<close>

theorem correct_answer_transition_witness:
  "loop_body (replying_world \<lparr>correct = True, reason = None, url = JNull\<rparr>)
     ''e'' ''s'' 180000000 2 fresh_session = Break first_try
   \<and> run_loop (replying_world \<lparr>correct = True, reason = None, url = JStr ''http://quiz/0''\<rparr>)
     ''e'' ''s'' 180000000 2 fresh_session = Returns first_try
   \<and> loop_body (replying_world \<lparr>correct = True, reason = None, url = JStr ''http://quiz/1''\<rparr>)
     ''e'' ''s'' 180000000 2 fresh_session
     = Continue (first_try\<lparr>current_url := JStr ''http://quiz/1''\<rparr>)"
  using
    correct_answer_transition [where st = fresh_session and sta = first_try
      and w = "replying_world \<lparr>correct = True, reason = None, url = JNull\<rparr>"
      and r = "\<lparr>correct = True, reason = None, url = JNull\<rparr>"
      and n = 1 and deadline = 180000000 and max_iterations = 2
      and email = "''e''" and secret = "''s''"
      and ex = "\<lparr>page_text = [], links = [], tables = [], ext_question = []\<rparr>"
      and a = an_analysis and fs = "[]" and md = "[]" and answer = "PInt 42"
      and hist = "[\<lparr>iteration = 1, rec_code = ''pass'',
                    rec_result = \<lparr>success = True, result = PInt 42, stdout = [], stderr = [],
                                  error = None\<rparr>\<rparr>]"
      and target = "''http://quiz/submit''"]
    correct_answer_transition [where st = fresh_session and sta = first_try
      and w = "replying_world \<lparr>correct = True, reason = None, url = JStr ''http://quiz/0''\<rparr>"
      and r = "\<lparr>correct = True, reason = None, url = JStr ''http://quiz/0''\<rparr>"
      and n = 1 and deadline = 180000000 and max_iterations = 2
      and email = "''e''" and secret = "''s''"
      and ex = "\<lparr>page_text = [], links = [], tables = [], ext_question = []\<rparr>"
      and a = an_analysis and fs = "[]" and md = "[]" and answer = "PInt 42"
      and hist = "[\<lparr>iteration = 1, rec_code = ''pass'',
                    rec_result = \<lparr>success = True, result = PInt 42, stdout = [], stderr = [],
                                  error = None\<rparr>\<rparr>]"
      and target = "''http://quiz/submit''"]
    correct_answer_transition [where st = fresh_session and sta = first_try
      and w = "replying_world \<lparr>correct = True, reason = None, url = JStr ''http://quiz/1''\<rparr>"
      and r = "\<lparr>correct = True, reason = None, url = JStr ''http://quiz/1''\<rparr>"
      and n = 1 and deadline = 180000000 and max_iterations = 2
      and email = "''e''" and secret = "''s''"
      and ex = "\<lparr>page_text = [], links = [], tables = [], ext_question = []\<rparr>"
      and a = an_analysis and fs = "[]" and md = "[]" and answer = "PInt 42"
      and hist = "[\<lparr>iteration = 1, rec_code = ''pass'',
                    rec_result = \<lparr>success = True, result = PInt 42, stdout = [], stderr = [],
                                  error = None\<rparr>\<rparr>]"
      and target = "''http://quiz/submit''"]
  by (simp add: fresh_session_def first_try_def replying_world_def scenario_defs)

section \<open>C6: the submission client normalizes failures\<close>




section \<open>C7: the iteration cap\<close>

text \<open>
  The iterations run to the end of their list when they are fruitless.
\<close>

lemma agent_iterations_fruitless:
  "fruitless w n deadline a fs md todo h \<Longrightarrow>
   \<exists>h'. agent_iterations w n deadline a fs md todo h = Inr (PNone, h @ h')
        \<and> map iteration h' = todo"
proof (induction todo arbitrary: h)
  case Nil
  then show ?case by simp
next
  case (Cons i rest)
  let ?ctx = "\<lparr>ctx_downloaded_files = fs, ctx_file_metadata = md, ctx_analysis = a\<rparr>"
  from Cons.prems have in_time: "now_iteration w n i < deadline"
    by simp
  from Cons.prems obtain resp where resp: "call_agent_llm w n a fs md h i = Inr resp"
    by (cases "call_agent_llm w n a fs md h i") auto
  with Cons.prems have no_final: "final_answer resp = PNone"
    by simp
  from Cons.prems resp obtain c where c: "code resp = Some c"
    by (cases "code resp") auto
  with Cons.prems resp have nonempty: "c \<noteq> []"
    by simp
  from Cons.prems resp c obtain ex where ex: "execute_code (sandbox_at w n i) c ?ctx 60 = Inr ex"
    by (cases "execute_code (sandbox_at w n i) c ?ctx 60") auto
  with Cons.prems resp c have no_result: "\<not> (success ex \<and> result ex \<noteq> PNone)"
    and rest: "fruitless w n deadline a fs md rest
                 (h @ [\<lparr>iteration = i, rec_code = c, rec_result = ex\<rparr>])"
    by simp_all
  let ?h1 = "h @ [\<lparr>iteration = i, rec_code = c, rec_result = ex\<rparr>]"
  have step: "agent_iterations w n deadline a fs md (i # rest) h
              = agent_iterations w n deadline a fs md rest ?h1"
    using in_time resp no_final c nonempty ex no_result by (auto simp: Let_def)
  from Cons.IH [OF rest]
  obtain h' where "agent_iterations w n deadline a fs md rest ?h1 = Inr (PNone, ?h1 @ h')"
    "map iteration h' = rest"
    by auto
  with step show ?case
    by (intro exI [of _ "\<lparr>iteration = i, rec_code = c, rec_result = ex\<rparr> # h'"]) simp
qed

text \<open>
  C7, as amended. If, along the iterations 1 to N as they take place, the deadline is not
  reached before the iteration, the reasoning collaborator returns a non-empty code string
  and no final answer, and the execution of that code returns without a successful result
  other than \<open>None\<close>, then the engine runs exactly N executions, one iteration record
  each, numbered 1 to N, and produces no answer. Conversely an iteration that starts before
  the deadline stops the loop with the collaborator's final answer, without executing
  anything, or with the result of an execution that succeeds with a value other than
  \<open>None\<close>.
\<close>

theorem iteration_cap:
  "(fruitless w n deadline a fs md [1..max_iterations] []
     \<longrightarrow> (\<exists>h. agent_loop w n deadline a fs md max_iterations = Inr (PNone, h)
              \<and> map iteration h = [1..max_iterations] \<and> length h = nat max_iterations))
   \<and> (now_iteration w n i < deadline
        \<and> call_agent_llm w n a fs md h i = Inr resp \<and> final_answer resp \<noteq> PNone
      \<longrightarrow> agent_iterations w n deadline a fs md (i # rest) h = Inr (final_answer resp, h))
   \<and> (now_iteration w n i < deadline
        \<and> call_agent_llm w n a fs md h i = Inr resp \<and> final_answer resp = PNone
        \<and> code resp = Some c \<and> c \<noteq> []
        \<and> execute_code (sandbox_at w n i) c
             \<lparr>ctx_downloaded_files = fs, ctx_file_metadata = md, ctx_analysis = a\<rparr> 60 = Inr ex
        \<and> success ex \<and> result ex \<noteq> PNone
      \<longrightarrow> agent_iterations w n deadline a fs md (i # rest) h
          = Inr (result ex, h @ [\<lparr>iteration = i, rec_code = c, rec_result = ex\<rparr>]))"
proof (intro conjI impI)
  assume "fruitless w n deadline a fs md [1..max_iterations] []"
  from agent_iterations_fruitless [OF this]
  obtain h' where "agent_iterations w n deadline a fs md [1..max_iterations] [] = Inr (PNone, h')"
    "map iteration h' = [1..max_iterations]"
    by auto
  moreover from this(2) have "length h' = length [1..max_iterations]"
    by (metis length_map)
  ultimately show "\<exists>h. agent_loop w n deadline a fs md max_iterations = Inr (PNone, h)
              \<and> map iteration h = [1..max_iterations] \<and> length h = nat max_iterations"
    by (simp add: agent_loop_def)
next
  assume "now_iteration w n i < deadline
        \<and> call_agent_llm w n a fs md h i = Inr resp \<and> final_answer resp \<noteq> PNone"
  then show "agent_iterations w n deadline a fs md (i # rest) h = Inr (final_answer resp, h)"
    by simp
next
  assume "now_iteration w n i < deadline
        \<and> call_agent_llm w n a fs md h i = Inr resp \<and> final_answer resp = PNone
        \<and> code resp = Some c \<and> c \<noteq> []
        \<and> execute_code (sandbox_at w n i) c
             \<lparr>ctx_downloaded_files = fs, ctx_file_metadata = md, ctx_analysis = a\<rparr> 60 = Inr ex
        \<and> success ex \<and> result ex \<noteq> PNone"
  then show "agent_iterations w n deadline a fs md (i # rest) h
          = Inr (result ex, h @ [\<lparr>iteration = i, rec_code = c, rec_result = ex\<rparr>])"
    by (simp add: Let_def)
qed

text \<open>
  Witness for C7: two fruitless executions in a world whose sandbox would give a result for
  any code but the one that is run, a final answer in the decided world, a result of the
  first execution in the stubborn world.
\<close>

theorem iteration_cap_witness:
  "fruitless picky_world 1 180000000 an_analysis [] [] [1..2] []
   \<and> (\<exists>h. agent_loop picky_world 1 180000000 an_analysis [] [] 2 = Inr (PNone, h)
        \<and> map iteration h = [1, 2] \<and> length h = 2)
   \<and> agent_iterations decided_world 1 180000000 an_analysis [] [] [1, 2] [] = Inr (PStr ''42'', [])
   \<and> agent_iterations stubborn_world 1 180000000 an_analysis [] [] [1, 2] []
      = Inr (PInt 42,
             [\<lparr>iteration = 1, rec_code = ''pass'',
               rec_result = \<lparr>success = True, result = PInt 42, stdout = [], stderr = [],
                             error = None\<rparr>\<rparr>])"
proof -
  note defs = picky_world_def decided_world_def stubborn_world_def a_sandbox_def
    execute_code_def execute_sync_def extract_result_def result_names_def upto_1_2
  have picky: "fruitless picky_world 1 180000000 an_analysis [] [] [1..2] []"
    by (simp add: defs)
  from picky have "\<exists>h. agent_loop picky_world 1 180000000 an_analysis [] [] 2 = Inr (PNone, h)
        \<and> map iteration h = [1, 2] \<and> length h = 2"
    using iteration_cap [where w = picky_world and n = 1 and deadline = 180000000
      and a = an_analysis and fs = "[]" and md = "[]" and max_iterations = 2, THEN conjunct1]
    by (simp add: upto_1_2)
  moreover
  have "agent_iterations decided_world 1 180000000 an_analysis [] [] [1, 2] [] = Inr (PStr ''42'', [])"
    using iteration_cap [where w = decided_world and n = 1 and deadline = 180000000
      and a = an_analysis and fs = "[]" and md = "[]" and i = 1 and rest = "[2]" and h = "[]"
      and resp = "\<lparr>code = None, final_answer = PStr ''42''\<rparr>", THEN conjunct2, THEN conjunct1]
    by (simp add: defs)
  moreover
  have "agent_iterations stubborn_world 1 180000000 an_analysis [] [] [1, 2] []
      = Inr (PInt 42,
             [\<lparr>iteration = 1, rec_code = ''pass'',
               rec_result = \<lparr>success = True, result = PInt 42, stdout = [], stderr = [],
                             error = None\<rparr>\<rparr>])"
    using iteration_cap [where w = stubborn_world and n = 1 and deadline = 180000000
      and a = an_analysis and fs = "[]" and md = "[]" and i = 1 and rest = "[2]" and h = "[]"
      and c = "''pass''" and resp = "\<lparr>code = Some ''pass'', final_answer = PNone\<rparr>"
      and ex = "\<lparr>success = True, result = PInt 42, stdout = [], stderr = [], error = None\<rparr>",
      THEN conjunct2, THEN conjunct2]
    by (simp add: defs)
  ultimately show ?thesis using picky by blast
qed

text \<open>
  Counterexample to C7 as stated: the collaborator would return code on both iterations and
  no execution would give a result, yet with a cap of 2 the engine runs no execution at all,
  because the deadline has passed when the iterations start.
\<close>

theorem iteration_cap_counterexample:
  "call_agent_llm late_world 1 an_analysis [] [] [] 1 = Inr \<lparr>code = Some ''pass'', final_answer = PNone\<rparr>
   \<and> call_agent_llm late_world 1 an_analysis [] [] [] 2 = Inr \<lparr>code = Some ''pass'', final_answer = PNone\<rparr>
   \<and> execute_code (sandbox_at late_world 1 1) ''pass''
        \<lparr>ctx_downloaded_files = [], ctx_file_metadata = [], ctx_analysis = an_analysis\<rparr> 60
      = Inr \<lparr>success = True, result = PNone, stdout = [], stderr = [], error = None\<rparr>
   \<and> execute_code (sandbox_at late_world 1 2) ''pass''
        \<lparr>ctx_downloaded_files = [], ctx_file_metadata = [], ctx_analysis = an_analysis\<rparr> 60
      = Inr \<lparr>success = True, result = PNone, stdout = [], stderr = [], error = None\<rparr>
   \<and> agent_loop late_world 1 180000000 an_analysis [] [] 2 = Inr (PNone, [])"
  by (simp add: late_world_def idle_world_def scenario_defs)

section \<open>C8: the service boundary\<close>

text \<open>
  C8. The claim says that the response is produced once the session is launched, before it
  finishes, and never carries its outcome. The handler awaits the session: the same
  authenticated request is answered with the acknowledgment when the session returns (here
  after two attempts) and with status 500 and the text of the exception when the session
  raises in its second pass (the server named a list as next location), so that the
  response is produced only after the session has ended, and depends on how it ended.
\<close>

theorem handle_quiz_waits_for_session:
  "handle_quiz stubborn_world 0 (Some ''s3cret'') (Some ''me@example.org'') a_request
     = Response \<lparr>status = ''success'', message = ''Quiz processing initiated''\<rparr>
   \<and> run_quiz_agent stubborn_world ''http://quiz/0'' ''me@example.org'' ''s3cret'' 180000000 2
     = Returns second_try
   \<and> handle_quiz listing_world 0 (Some ''s3cret'') (Some ''me@example.org'') a_request
     = HTTPException 500 ''TypeError: unhashable type''
   \<and> run_quiz_agent listing_world ''http://quiz/0'' ''me@example.org'' ''s3cret'' 180000000 2
     = Raises unhashable_error
         \<lparr>current_url = JArray [JStr ''http://quiz/1''], total_attempts = 2,
          url_attempt_counts = [JStr ''http://quiz/0'' \<mapsto> 1],
          visited_urls = [JStr ''http://quiz/0'']\<rparr>"
  by (simp add: handle_quiz_def a_request_def listing_world_def replying_world_def
        second_try_def unhashable_error_def run_loop.simps scenario_defs numeral_2_eq_2)

section \<open>C9: a transport failure never advances\<close>

text \<open>
  C9. Take a pass of the loop that passes the safety checks and obtains an answer (one that
  can be encoded) and a submission target, and whose round-trip, between the creation and
  the closing of the client, fails with an \<open>Exception\<close>: a connection error, an error
  status or an unparsable body. The outcome
  that \<open>submit_answer\<close> returns has no next location, and the loop goes on from the same
  location while its count is below the per-location ceiling and the session stops
  otherwise; the current location is the same after the pass.
\<close>

theorem transport_failure_never_advances:
  assumes "truthy (current_url st)" and "now_loop w (total_attempts st) < deadline"
    and "total_attempts st < MAX_TOTAL_ATTEMPTS"
    and "hashable (current_url st)"
    and "get0 (url_attempt_counts st) (current_url st) < MAX_ATTEMPTS_PER_URL"
    and "\<not> deadline - now_guard w n < 10 * 1000000"
    and "load_page w n (current_url st) = Inr ex"
    and "call_analyzer_llm w n ex (deadline - now_guard w n) max_iterations = Inr a"
    and "download_all w n (resources a) [] = Inr fs"
    and "preprocess w n fs a = Inr md"
    and "agent_loop w n deadline a fs md max_iterations = Inr (answer, hist)"
    and "answer \<noteq> PNone" and "submission_link a = Some target" and "target \<noteq> []"
    and "open_client (client_at w n) = None" and "close_client (client_at w n) = None"
    and "json_serializable answer" and "is_exception e"
    and "post (client_at w n) target
           \<lparr>p_email = email, p_secret = secret, p_url = current_url st, p_answer = answer\<rparr> = Inl e
         \<or> (\<exists>resp. post (client_at w n) target
                      \<lparr>p_email = email, p_secret = secret, p_url = current_url st,
                       p_answer = answer\<rparr> = Inr resp
               \<and> (raise_for_status (client_at w n) resp = Some e
                  \<or> raise_for_status (client_at w n) resp = None
                    \<and> json_of (client_at w n) resp = Inl e))"
    and "n = total_attempts st + 1"
    and "sta = st\<lparr>total_attempts := total_attempts st + 1,
                   url_attempt_counts := put (url_attempt_counts st) (current_url st)
                     (get0 (url_attempt_counts st) (current_url st) + 1),
                   visited_urls := visited_urls st @ [current_url st]\<rparr>"
  shows "fst (submit_answer (client_at w n) target email secret (current_url st) answer)
           = Inr (Dict \<lparr>correct = False, reason = Some (str_of e), url = JNull\<rparr>)
       \<and> (get0 (url_attempt_counts sta) (current_url st) < MAX_ATTEMPTS_PER_URL \<longrightarrow>
            loop_body w email secret deadline max_iterations st = Continue sta
            \<and> run_loop w email secret deadline max_iterations st
              = run_loop w email secret deadline max_iterations sta)
       \<and> (\<not> get0 (url_attempt_counts sta) (current_url st) < MAX_ATTEMPTS_PER_URL \<longrightarrow>
            loop_body w email secret deadline max_iterations st = Break sta
            \<and> run_loop w email secret deadline max_iterations st = Returns sta)
       \<and> current_url (state_of (loop_body w email secret deadline max_iterations st))
           = current_url st"
proof -
  let ?r = "\<lparr>correct = False, reason = Some (str_of e), url = JNull\<rparr>"
  have reply: "fst (submit_answer (client_at w n) target email secret (current_url st) answer)
                 = Inr (Dict ?r)"
    using assms(15-19) by (auto simp: submit_answer_def normalized_def failure_reply_def Let_def)
  have body: "loop_body w email secret deadline max_iterations st = handle_submission ?r sta"
    using assms(3-14) reply assms(20,21) by (rule loop_body_submitted)
  have cur: "current_url sta = current_url st"
    using assms(21) by simp
  show ?thesis
    using assms(1,2) cur reply
    by (auto simp: body handle_submission_def Let_def run_loop_break run_loop_continue)
qed

text \<open>
  Witness for C9: a refused connection on the first and on the second try.
\<close>

theorem transport_failure_never_advances_witness:
  "post (client_at offline_world 1) ''http://quiz/submit''
      \<lparr>p_email = ''e'', p_secret = ''s'', p_url = JStr ''http://quiz/0'', p_answer = PInt 42\<rparr>
     = Inl (Exn ''connection refused'')
   \<and> run_loop offline_world ''e'' ''s'' 180000000 2 fresh_session
       = run_loop offline_world ''e'' ''s'' 180000000 2 first_try
   \<and> run_loop offline_world ''e'' ''s'' 180000000 2 first_try = Returns second_try"
proof -
  note defs = fresh_session_def first_try_def second_try_def offline_world_def scenario_defs
    numeral_2_eq_2
  have "post (client_at offline_world 1) ''http://quiz/submit''
      \<lparr>p_email = ''e'', p_secret = ''s'', p_url = JStr ''http://quiz/0'', p_answer = PInt 42\<rparr>
     = Inl (Exn ''connection refused'')"
    by (simp add: defs)
  moreover
  have "run_loop offline_world ''e'' ''s'' 180000000 2 fresh_session
       = run_loop offline_world ''e'' ''s'' 180000000 2 first_try"
    using transport_failure_never_advances [where st = fresh_session and sta = first_try
      and w = offline_world and e = "Exn ''connection refused''"
      and n = 1 and deadline = 180000000 and max_iterations = 2
      and email = "''e''" and secret = "''s''"
      and ex = "\<lparr>page_text = [], links = [], tables = [], ext_question = []\<rparr>"
      and a = an_analysis and fs = "[]" and md = "[]" and answer = "PInt 42"
      and hist = "[\<lparr>iteration = 1, rec_code = ''pass'',
                    rec_result = \<lparr>success = True, result = PInt 42, stdout = [], stderr = [],
                                  error = None\<rparr>\<rparr>]"
      and target = "''http://quiz/submit''"]
    by (simp add: defs)
  moreover
  have "run_loop offline_world ''e'' ''s'' 180000000 2 first_try = Returns second_try"
    using transport_failure_never_advances [where st = first_try and sta = second_try
      and w = offline_world and e = "Exn ''connection refused''"
      and n = 2 and deadline = 180000000 and max_iterations = 2
      and email = "''e''" and secret = "''s''"
      and ex = "\<lparr>page_text = [], links = [], tables = [], ext_question = []\<rparr>"
      and a = an_analysis and fs = "[]" and md = "[]" and answer = "PInt 42"
      and hist = "[\<lparr>iteration = 1, rec_code = ''pass'',
                    rec_result = \<lparr>success = True, result = PInt 42, stdout = [], stderr = [],
                                  error = None\<rparr>\<rparr>]"
      and target = "''http://quiz/submit''"]
    by (simp add: defs)
  ultimately show ?thesis by blast
qed

section \<open>C10: counters are consumed before the guards\<close>

text \<open>
  C10, as amended. Every pass increments the global counter first. A pass cut off by the
  global ceiling leaves the location's counter untouched; every other pass on a location
  that can be a dict key increments the location's counter before the deadline guard and
  before any remote work, so that a pass cut off by the per-location ceiling or by the
  ten-second guard has consumed a slot of both counters. (On a location that cannot be a
  dict key, a list or a dict named by the server, the increment itself raises.) The
  reported total can exceed the number of processed attempts, as it does in the run of the
  advancing world.
\<close>

theorem counters_before_guards:
  "total_attempts (state_of (loop_body w email secret deadline max_iterations st))
     = total_attempts st + 1
   \<and> (MAX_TOTAL_ATTEMPTS \<le> total_attempts st \<longrightarrow>
        loop_body w email secret deadline max_iterations st
          = Break (st\<lparr>total_attempts := total_attempts st + 1\<rparr>))
   \<and> (total_attempts st < MAX_TOTAL_ATTEMPTS \<and> hashable (current_url st) \<longrightarrow>
        url_attempt_counts (state_of (loop_body w email secret deadline max_iterations st))
          = put (url_attempt_counts st) (current_url st)
              (get0 (url_attempt_counts st) (current_url st) + 1))
   \<and> (total_attempts st < MAX_TOTAL_ATTEMPTS \<and> hashable (current_url st)
        \<and> (MAX_ATTEMPTS_PER_URL \<le> get0 (url_attempt_counts st) (current_url st)
           \<or> deadline - now_guard w (total_attempts st + 1) < 10 * 1000000) \<longrightarrow>
        loop_body w email secret deadline max_iterations st
          = Break (st\<lparr>total_attempts := total_attempts st + 1,
                      url_attempt_counts := put (url_attempt_counts st) (current_url st)
                        (get0 (url_attempt_counts st) (current_url st) + 1)\<rparr>))
   \<and> (total_attempts st < MAX_TOTAL_ATTEMPTS \<and> \<not> hashable (current_url st) \<longrightarrow>
        loop_body w email secret deadline max_iterations st
          = Escape unhashable_error (st\<lparr>total_attempts := total_attempts st + 1\<rparr>))
   \<and> length (visited_urls (final
         (run_quiz_agent advancing_world (quiz_page 0) ''e'' ''s'' 180000000 2)))
       < total_attempts (final
         (run_quiz_agent advancing_world (quiz_page 0) ''e'' ''s'' 180000000 2))"
proof -
  have "length (visited_urls (final
         (run_quiz_agent advancing_world (quiz_page 0) ''e'' ''s'' 180000000 2)))
       < total_attempts (final
         (run_quiz_agent advancing_world (quiz_page 0) ''e'' ''s'' 180000000 2))"
    by (simp add: advancing_run advancing_session_def)
  moreover have "total_attempts st < MAX_TOTAL_ATTEMPTS \<and> hashable (current_url st) \<Longrightarrow>
        url_attempt_counts (state_of (loop_body w email secret deadline max_iterations st))
          = put (url_attempt_counts st) (current_url st)
              (get0 (url_attempt_counts st) (current_url st) + 1)"
    using loop_body_cases [of w email secret deadline max_iterations st] by auto
  moreover have "MAX_TOTAL_ATTEMPTS \<le> total_attempts st \<Longrightarrow>
        loop_body w email secret deadline max_iterations st
          = Break (st\<lparr>total_attempts := total_attempts st + 1\<rparr>)"
    by (simp add: loop_body_def Let_def)
  moreover have "total_attempts st < MAX_TOTAL_ATTEMPTS \<and> hashable (current_url st)
        \<and> (MAX_ATTEMPTS_PER_URL \<le> get0 (url_attempt_counts st) (current_url st)
           \<or> deadline - now_guard w (total_attempts st + 1) < 10 * 1000000) \<Longrightarrow>
        loop_body w email secret deadline max_iterations st
          = Break (st\<lparr>total_attempts := total_attempts st + 1,
                      url_attempt_counts := put (url_attempt_counts st) (current_url st)
                        (get0 (url_attempt_counts st) (current_url st) + 1)\<rparr>)"
    by (auto simp: loop_body_def Let_def get0_put)
  moreover have "total_attempts st < MAX_TOTAL_ATTEMPTS \<and> \<not> hashable (current_url st) \<Longrightarrow>
        loop_body w email secret deadline max_iterations st
          = Escape unhashable_error (st\<lparr>total_attempts := total_attempts st + 1\<rparr>)"
    by (simp add: loop_body_def Let_def)
  ultimately show ?thesis
    using loop_body_total [of w email secret deadline max_iterations st] by blast
qed

text \<open>
  Witness for C10: a pass cut off by the global ceiling, one cut off by the per-location
  ceiling, one cut off by the ten-second guard and one on a list.
\<close>

theorem counters_before_guards_witness:
  "loop_body stubborn_world ''e'' ''s'' 180000000 2 (second_try\<lparr>total_attempts := 30\<rparr>)
     = Break (second_try\<lparr>total_attempts := 31\<rparr>)
   \<and> loop_body stubborn_world ''e'' ''s'' 180000000 2 second_try
     = Break (second_try\<lparr>total_attempts := 3,
                url_attempt_counts := [JStr ''http://quiz/0'' \<mapsto> 3]\<rparr>)
   \<and> loop_body stubborn_world ''e'' ''s'' 5000000 2 fresh_session
     = Break (fresh_session\<lparr>total_attempts := 1,
                url_attempt_counts := [JStr ''http://quiz/0'' \<mapsto> 1]\<rparr>)
   \<and> loop_body stubborn_world ''e'' ''s'' 180000000 2
        (first_try\<lparr>current_url := JArray [JStr ''http://quiz/1'']\<rparr>)
     = Escape unhashable_error
         (first_try\<lparr>current_url := JArray [JStr ''http://quiz/1''], total_attempts := 2\<rparr>)"
  using
    counters_before_guards [where st = "second_try\<lparr>total_attempts := 30\<rparr>" and w = stubborn_world
      and deadline = 180000000 and max_iterations = 2 and email = "''e''" and secret = "''s''"]
    counters_before_guards [where st = second_try and w = stubborn_world
      and deadline = 180000000 and max_iterations = 2 and email = "''e''" and secret = "''s''"]
    counters_before_guards [where st = fresh_session and w = stubborn_world
      and deadline = 5000000 and max_iterations = 2 and email = "''e''" and secret = "''s''"]
    counters_before_guards [where st = "first_try\<lparr>current_url := JArray [JStr ''http://quiz/1'']\<rparr>"
      and w = stubborn_world
      and deadline = 180000000 and max_iterations = 2 and email = "''e''" and secret = "''s''"]
  by (simp add: first_try_def second_try_def fresh_session_def stubborn_world_def get0_def put_def
        MAX_TOTAL_ATTEMPTS_def MAX_ATTEMPTS_PER_URL_def)

text \<open>
  Counterexample to C10 as stated: after thirty processed attempts on thirty locations the
  thirty-first pass is cut off by the global ceiling, and the counter of its location has
  not been incremented.
\<close>

theorem global_ceiling_counterexample:
  "total_attempts (final
      (run_quiz_agent advancing_world (quiz_page 0) ''e'' ''s'' 180000000 2)) = 31
   \<and> length (visited_urls (final
      (run_quiz_agent advancing_world (quiz_page 0) ''e'' ''s'' 180000000 2))) = 30
   \<and> current_url (final
      (run_quiz_agent advancing_world (quiz_page 0) ''e'' ''s'' 180000000 2))
       = JStr (quiz_page 30)
   \<and> url_attempt_counts (final
      (run_quiz_agent advancing_world (quiz_page 0) ''e'' ''s'' 180000000 2))
        (JStr (quiz_page 30)) = None"
  by (auto simp add: advancing_run advancing_session_def)

end
